theory Spec2Isabelle
  imports Main
begin

section \<open>Exceptions and results\<close>

text \<open>
  Both Python modules signal every fatal condition with \<open>ValueError\<close>; the constructor
  argument records which \<open>raise\<close> statement (or which failing builtin) produced it.
  The other constructors are the builtin exceptions that the selectors, the list
  indexing, the comparison of a datetime with \<open>None\<close>, the network layer and the
  terminal can raise.
\<close>

datatype value_error =
    GalleryNotExist        \<comment> \<open>check_gallery_conditions, status 404\<close>
  | InvalidGalleryType     \<comment> \<open>make_url_for_article\<close>
  | NoRecentPost           \<comment> \<open>select_recent_gall_no\<close>
  | GallNoTogether         \<comment> \<open>start_gall_no and end_gall_no must be provided together\<close>
  | DateTogether           \<comment> \<open>start_date and end_date must be provided together\<close>
  | NoConditions           \<comment> \<open>Scrapping conditions must be provided\<close>
  | BothRanges             \<comment> \<open>Both gall_no range and date range provided\<close>
  | GallNoOrder            \<comment> \<open>start_gall_no must be less than or equal to end_gall_no\<close>
  | DateFormat             \<comment> \<open>Invalid date format\<close>
  | DateOrder              \<comment> \<open>start_date must be less than or equal to end_date\<close>
  | IntLiteral             \<comment> \<open>int() on a text that is not an integer literal\<close>

datatype exn =
    ValueError value_error
  | AttributeError
  | IndexError
  | TypeError
  | RequestException
  | WebDriverException
  | KeyboardInterrupt

datatype 'a res = Ret 'a | Raise exn

section \<open>Strings\<close>

text \<open>
  A text is a list of characters, and a character stands for the code point of its
  number: texts are taken over the code points below 256. Among these the decimal
  digits, which \<open>int\<close> and the pattern \<open>\d\<close> accept, are \<open>0\<close> to \<open>9\<close>.
\<close>

definition is_digit :: "char \<Rightarrow> bool" where
  "is_digit c = (c \<in> set ''0123456789'')"

definition digit_val :: "char \<Rightarrow> nat" where
  "digit_val c =
     (case map_of [(CHR ''0'', 0), (CHR ''1'', 1), (CHR ''2'', 2), (CHR ''3'', 3),
                   (CHR ''4'', 4), (CHR ''5'', 5), (CHR ''6'', 6), (CHR ''7'', 7),
                   (CHR ''8'', 8), (CHR ''9'', 9::nat)] c of
        Some d \<Rightarrow> d | None \<Rightarrow> 0)"

definition digits_val :: "string \<Rightarrow> nat" where
  "digits_val s = foldl (\<lambda>acc c. 10 * acc + digit_val c) 0 s"

text \<open>
  \<open>str.isdigit\<close> accepts the decimal digits and also the superscripts two, three and one
  (code points 178, 179 and 185), which \<open>int\<close> rejects.
\<close>

definition py_isdigit :: "char \<Rightarrow> bool" where
  "py_isdigit c = (is_digit c \<or> c \<in> set [CHR 0xB2, CHR 0xB3, CHR 0xB9])"

text \<open>
  The characters that \<open>split()\<close>, \<open>strip()\<close> and \<open>int\<close> take as whitespace: tab, line
  feed, vertical tab, form feed, carriage return, the four separators 28 to 31, the
  space, the next-line control (133) and the no-break space (160).
\<close>

definition is_space :: "char \<Rightarrow> bool" where
  "is_space c = (c \<in> set [CHR 0x09, CHR 0x0A, CHR 0x0B, CHR 0x0C, CHR 0x0D,
                            CHR 0x1C, CHR 0x1D, CHR 0x1E, CHR 0x1F, CHR 0x20,
                            CHR 0x85, CHR 0xA0])"

definition lstrip :: "string \<Rightarrow> string" where
  "lstrip s = dropWhile is_space s"

definition rstrip :: "string \<Rightarrow> string" where
  "rstrip s = rev (dropWhile is_space (rev s))"

text \<open>\<open>text.split()[0]\<close>: the first whitespace-separated word, IndexError when there is none.\<close>

definition split_first :: "string \<Rightarrow> string res" where
  "split_first s =
     (let t = takeWhile (\<lambda>c. \<not> is_space c) (dropWhile is_space s)
      in if t = [] then Raise IndexError else Ret t)"

text \<open>\<open>text.split(' ')[1]\<close>: the piece between the first and the second space.\<close>

definition split_sp_second :: "string \<Rightarrow> string res" where
  "split_sp_second s =
     (case dropWhile (\<lambda>c. c \<noteq> CHR '' '') s of
        [] \<Rightarrow> Raise IndexError
      | _ # r \<Rightarrow> Ret (takeWhile (\<lambda>c. c \<noteq> CHR '' '') r))"

text \<open>\<open>s.replace(old, new)\<close> for a non-empty \<open>old\<close>: leftmost non-overlapping occurrences.\<close>

fun replace_str :: "string \<Rightarrow> string \<Rightarrow> string \<Rightarrow> string" where
  "replace_str old new [] = []"
| "replace_str old new (c # cs) =
     (if old \<noteq> [] \<and> take (length old) (c # cs) = old
      then new @ replace_str old new (drop (length old) (c # cs))
      else c # replace_str old new cs)"

fun show_nat :: "nat \<Rightarrow> string" where
  "show_nat n =
     (if n < 10 then [''0123456789'' ! n]
      else show_nat (n div 10) @ [''0123456789'' ! (n mod 10)])"

definition show_int :: "int \<Rightarrow> string" where
  "show_int i = (if i < 0 then CHR ''-'' # show_nat (nat (- i)) else show_nat (nat i))"

definition zero_pad :: "nat \<Rightarrow> string \<Rightarrow> string" where
  "zero_pad w s = replicate (w - length s) CHR ''0'' @ s"

text \<open>
  \<open>int(text)\<close> on a string: surrounding whitespace is ignored, one sign is allowed, and
  the rest must be decimal digits, single underscores being allowed between digits.
\<close>

fun int_body_ok :: "string \<Rightarrow> bool" where
  "int_body_ok [] = False"
| "int_body_ok [c] = is_digit c"
| "int_body_ok (c # d # r) =
     (is_digit c \<and> (if d = CHR ''_'' then int_body_ok r else int_body_ok (d # r)))"

definition py_int :: "string \<Rightarrow> int res" where
  "py_int s =
     (let t = rstrip (lstrip s);
          neg = (t \<noteq> [] \<and> hd t = CHR ''-'');
          body = (if t \<noteq> [] \<and> (hd t = CHR ''-'' \<or> hd t = CHR ''+'') then tl t else t)
      in if int_body_ok body
         then (let v = int (digits_val (filter is_digit body)) in Ret (if neg then - v else v))
         else Raise (ValueError IntLiteral))"

section \<open>Dates\<close>

text \<open>
  A \<open>datetime\<close> produced by \<open>strptime\<close> with the format \<open>%Y.%m.%d\<close> has a zero time of
  day, so it is a year, a month and a day; datetimes compare lexicographically.
\<close>

type_synonym datetime = "nat \<times> nat \<times> nat"

definition dt_le :: "datetime \<Rightarrow> datetime \<Rightarrow> bool" where
  "dt_le a b = (case (a, b) of ((y, m, d), (y', m', d')) \<Rightarrow>
     y < y' \<or> (y = y' \<and> (m < m' \<or> (m = m' \<and> d \<le> d'))))"

definition dt_less :: "datetime \<Rightarrow> datetime \<Rightarrow> bool" where
  "dt_less a b = (dt_le a b \<and> a \<noteq> b)"

definition is_leap :: "nat \<Rightarrow> bool" where
  "is_leap y = (y mod 4 = 0 \<and> (y mod 100 \<noteq> 0 \<or> y mod 400 = 0))"

definition days_in_month :: "nat \<Rightarrow> nat \<Rightarrow> nat" where
  "days_in_month y m =
     (if m = 2 then (if is_leap y then 29 else 28)
      else if m \<in> {4, 6, 9, 11} then 30 else 31)"

definition num_token :: "string \<Rightarrow> nat \<Rightarrow> bool" where
  \<comment> \<open>one or two digits denoting a number from 1 to the bound, as the month and day patterns accept\<close>
  "num_token s hi = (s \<noteq> [] \<and> length s \<le> 2 \<and> list_all is_digit s
                      \<and> 1 \<le> digits_val s \<and> digits_val s \<le> hi)"

text \<open>The day pattern also accepts a space followed by one digit from 1 to 9.\<close>

definition day_token :: "string \<Rightarrow> bool" where
  "day_token s = (num_token s 31 \<or>
     (case s of [sp, c] \<Rightarrow> sp = CHR '' '' \<and> is_digit c \<and> c \<noteq> CHR ''0'' | _ \<Rightarrow> False))"

text \<open>
  \<open>datetime.strptime(s, "%Y.%m.%d")\<close>: four digits, a dot, a month, a dot, a day and
  nothing else; the year must be at least 1 and the day must exist in the month.
  \<open>None\<close> stands for the ValueError.
\<close>

definition strptime :: "string \<Rightarrow> datetime option" where
  "strptime s =
     (let ys = take 4 s; r1 = drop 4 s;
          ms = takeWhile is_digit (drop 1 r1); r2 = drop (1 + length ms) r1;
          ds = drop 1 r2; dv = digits_val (filter is_digit ds)
      in if length ys = 4 \<and> list_all is_digit ys \<and> take 1 r1 = ''.''
            \<and> num_token ms 12 \<and> take 1 r2 = ''.'' \<and> day_token ds
            \<and> 1 \<le> digits_val ys \<and> dv \<le> days_in_month (digits_val ys) (digits_val ms)
         then Some (digits_val ys, digits_val ms, dv)
         else None)"

definition strftime :: "datetime \<Rightarrow> string" where
  "strftime d = (case d of (y, m, dd) \<Rightarrow>
     zero_pad 4 (show_nat y) @ ''.'' @ zero_pad 2 (show_nat m) @ ''.'' @ zero_pad 2 (show_nat dd))"

text \<open>\<open>parse_date\<close>: only the ValueError of \<open>strptime\<close> is caught; the IndexError of \<open>split()[0]\<close> is not.\<close>

definition parse_date :: "string \<Rightarrow> datetime option res" where
  "parse_date text = (case split_first text of
       Raise e \<Rightarrow> Raise e
     | Ret dt \<Rightarrow> Ret (strptime dt))"

section \<open>Data model\<close>

text \<open>
  A comment is a text with its replies. \<open>ArticleExceptComment\<close> holds what one post
  page yields; the three counters are the texts of their elements (they become integers
  only when the batch is saved), and \<open>date\<close> is whatever \<open>parse_date\<close> returned.
\<close>

type_synonym comment = "string \<times> string list"

record article_except_comment =
  gall_no :: int
  date :: "datetime option"
  header :: string
  title :: string
  view_count :: string
  content :: string
  recommend_count :: string
  nonrecommend_count :: string

record article_data = article_except_comment +
  comments :: "comment list"

text \<open>
  One line of the JSONL file. A line written by \<open>save_data_in_batch\<close> is a
  \<open>JsonArticle\<close>: the header is removed, the date is a text (or null) and the counters
  are integers. \<open>Garbage\<close> is a line \<open>json.loads\<close> rejects; \<open>JsonOther\<close> is a line that
  decodes but from which \<open>int(article['gall_no'])\<close> cannot be taken.
\<close>

record stored_article =
  s_gall_no :: int
  s_date :: "string option"
  s_title :: string
  s_view_count :: int
  s_content :: string
  s_recommend_count :: int
  s_nonrecommend_count :: int
  s_comments :: "comment list"

datatype line = Garbage | JsonOther | JsonArticle stored_article

section \<open>The outside world\<close>

text \<open>
  What the selectors of \<open>crawl_except_comment\<close> find in a fetched document (\<open>None\<close>
  when \<open>select_one\<close> finds nothing), and the rows \<open>tr.us-post[data-no]\<close> of a listing
  page with their \<open>data-type\<close> and \<open>data-no\<close> attributes.
\<close>

record page =
  el_gall_date :: "string option"
  el_headtext :: "string option"
  el_subject :: "string option"
  el_write_div :: "string option"
  el_recommend_up :: "string option"
  el_recommend_down :: "string option"
  el_gall_count :: "string option"

type_synonym row = "string option \<times> string"

record response =
  status_code :: nat
  doc :: page
  rows :: "row list"

text \<open>
  \<open>requests.get\<close> returns a response, raises a \<open>RequestException\<close>, or is cut short by
  Ctrl-C (KeyboardInterrupt).
\<close>

datatype http_outcome = Response response | RequestFailed | HttpInterrupted

text \<open>
  What the browser shows after \<open>driver.get\<close>: the call raises a WebDriverException
  or is cut short by Ctrl-C, or neither wait finds a
  comment paragraph (the second one after a refresh), or the rendered page has these
  top-level comment items, each with the text of its paragraph and of the paragraphs of
  its replies; \<open>RenderedBroken\<close> is a page on which the extraction itself raises.
\<close>

record top_li =
  usertxt :: "string option"
  reply_usertxts :: "string option list"

datatype driver_outcome =
    DriverFailed
  | DriverInterrupted
  | WaitTimedOut
  | Rendered "top_li list"
  | RenderedBroken

text \<open>
  The remote service, the browser and the terminal answer by the number of external
  calls made so far, so that two requests for the same address may differ.
  \<open>sleep_interrupted\<close> says whether Ctrl-C arrives during a \<open>time.sleep\<close>. Ctrl-C is
  delivered at the blocking calls only, where a run spends its time: a request, a page
  load of the browser, a sleep.
\<close>

record env =
  web :: "nat \<Rightarrow> string \<Rightarrow> http_outcome"
  browser :: "nat \<Rightarrow> string \<Rightarrow> driver_outcome"
  sleep_interrupted :: "nat \<Rightarrow> bool"

datatype level = INFO | WARNING | ERROR

datatype log_msg =
    FailedFetch int | Deleted int | NoCommentsFound int | CommentParseError
  | LoadFailed | Initialized | StartEndGallNo | StartEndDate
  | CrawlByGallNo | CrawlByDate
  | AlreadyCollected int | Processing int | Collected int | Saved nat
  | AfterEndDate int | NoArticleBetween

datatype event =
    HttpGet string
  | DriverGet string
  | Sleep
  | Log level log_msg
  | FileAppend stored_article
  | DriverQuit

text \<open>
  The file at \<open>jsonl_path\<close> (\<open>None\<close> while it does not exist), the browser started by
  the constructor, the count of external calls and everything observable so far.
\<close>

record world =
  store :: "line list option"
  driver_open :: bool
  clock :: nat
  trace :: "event list"

definition emit :: "event \<Rightarrow> world \<Rightarrow> world" where
  "emit e w = w\<lparr>trace := trace w @ [e]\<rparr>"

definition external :: "event \<Rightarrow> world \<Rightarrow> world" where
  "external e w = w\<lparr>clock := Suc (clock w), trace := trace w @ [e]\<rparr>"

definition logger :: "level \<Rightarrow> log_msg \<Rightarrow> world \<Rightarrow> world" where
  "logger l m w = emit (Log l m) w"

section \<open>DCArticleProcessor\<close>

definition make_url_for_article :: "string \<Rightarrow> string \<Rightarrow> int \<Rightarrow> string res" where
  "make_url_for_article gallery_type gallery_id' gall_no' =
     (if gallery_type = ''main''
      then Ret (''https://gall.dcinside.com/board/view/?id='' @ gallery_id' @ ''&no='' @ show_int gall_no')
      else if gallery_type = ''minor''
      then Ret (''https://gall.dcinside.com/mgallery/board/view/?id='' @ gallery_id' @ ''&no='' @ show_int gall_no')
      else if gallery_type = ''mini''
      then Ret (''https://gall.dcinside.com/mini/board/view/?id='' @ gallery_id' @ ''&no='' @ show_int gall_no')
      else Raise (ValueError InvalidGalleryType))"

record processor =
  p_gallery_id :: string
  p_gall_type :: string
  p_gall_no :: int
  p_is_crawl_comments :: bool

text \<open>
  The part of \<open>crawl_except_comment\<close> after the request. Only the date, the header and
  the content selectors are inside a \<open>try\<close>; a missing title, counter or view count
  raises AttributeError, and a view count without a space raises IndexError.
\<close>

definition extract_article :: "processor \<Rightarrow> page \<Rightarrow> world \<Rightarrow> article_except_comment option res \<times> world" where
  "extract_article p pg w =
     (case el_gall_date pg of
        None \<Rightarrow> (Ret None, logger INFO (Deleted (p_gall_no p)) w)
      | Some date_text \<Rightarrow>
        (case parse_date date_text of
           Raise e \<Rightarrow> (Raise e, w)
         | Ret date' \<Rightarrow>
           (let article_header =
                  (case el_headtext pg of
                     Some h \<Rightarrow> replace_str '']'' [] (replace_str ''['' [] h)
                   | None \<Rightarrow> [])
            in case el_subject pg of
                 None \<Rightarrow> (Raise AttributeError, w)
               | Some title' \<Rightarrow>
                 (let content' =
                        (case el_write_div pg of
                           Some c \<Rightarrow> replace_str ''- dc official App'' [] (lstrip (rstrip c))
                         | None \<Rightarrow> [])
                  in case el_recommend_up pg of
                       None \<Rightarrow> (Raise AttributeError, w)
                     | Some recommend \<Rightarrow>
                       (case el_recommend_down pg of
                          None \<Rightarrow> (Raise AttributeError, w)
                        | Some nonrecommend \<Rightarrow>
                          (case el_gall_count pg of
                             None \<Rightarrow> (Raise AttributeError, w)
                           | Some count_text \<Rightarrow>
                             (case split_sp_second count_text of
                                Raise e \<Rightarrow> (Raise e, w)
                              | Ret view_count' \<Rightarrow>
                                (Ret (Some \<lparr>gall_no = p_gall_no p, date = date',
                                            header = article_header, title = title',
                                            view_count = view_count', content = content',
                                            recommend_count = recommend,
                                            nonrecommend_count = nonrecommend\<rparr>), w))))))))"

definition crawl_except_comment :: "env \<Rightarrow> processor \<Rightarrow> world \<Rightarrow> article_except_comment option res \<times> world" where
  "crawl_except_comment en p w =
     (case make_url_for_article (p_gall_type p) (p_gallery_id p) (p_gall_no p) of
        Raise e \<Rightarrow> (Raise e, w)
      | Ret url \<Rightarrow>
        (let w1 = external (HttpGet url) w
         in case web en (clock w) url of
              RequestFailed \<Rightarrow> (Ret None, logger ERROR (FailedFetch (p_gall_no p)) w1)
            | HttpInterrupted \<Rightarrow> (Raise KeyboardInterrupt, w1)
            | Response r \<Rightarrow> extract_article p (doc r) w1))"

text \<open>
  One top-level comment item: an item without text (a sticker or an image) is skipped
  with its replies; a reply without text is skipped.
\<close>

definition comment_of_li :: "top_li \<Rightarrow> comment option" where
  "comment_of_li li =
     (let text' = (case usertxt li of Some t \<Rightarrow> t | None \<Rightarrow> [])
      in if text' = [] then None
         else Some (replace_str ''- dc official App'' [] text',
                    map (replace_str ''- dc official App'' [])
                        (filter (\<lambda>r. r \<noteq> [])
                           (map (\<lambda>rp. case rp of Some t \<Rightarrow> t | None \<Rightarrow> []) (reply_usertxts li)))))"

definition crawl_comments :: "env \<Rightarrow> processor \<Rightarrow> world \<Rightarrow> comment list option res \<times> world" where
  "crawl_comments en p w =
     (case make_url_for_article (p_gall_type p) (p_gallery_id p) (p_gall_no p) of
        Raise e \<Rightarrow> (Raise e, w)
      | Ret url \<Rightarrow>
        (let w1 = external (DriverGet url) w
         in case browser en (clock w) url of
              DriverFailed \<Rightarrow> (Raise WebDriverException, w1)
            | DriverInterrupted \<Rightarrow> (Raise KeyboardInterrupt, w1)
            | WaitTimedOut \<Rightarrow> (Ret (Some []), logger INFO (NoCommentsFound (p_gall_no p)) w1)
            | Rendered lis \<Rightarrow> (Ret (Some (List.map_filter comment_of_li lis)), w1)
            | RenderedBroken \<Rightarrow> (Ret None, logger ERROR CommentParseError w1)))"

definition process_article :: "env \<Rightarrow> processor \<Rightarrow> world \<Rightarrow> article_data option res \<times> world" where
  "process_article en p w =
     (case crawl_except_comment en p w of
        (Raise e, w1) \<Rightarrow> (Raise e, w1)
      | (Ret None, w1) \<Rightarrow> (Ret None, w1)
      | (Ret (Some a), w1) \<Rightarrow>
        (case (if p_is_crawl_comments p then crawl_comments en p w1 else (Ret (Some []), w1)) of
           (Raise e, w2) \<Rightarrow> (Raise e, w2)
         | (Ret None, w2) \<Rightarrow> (Ret None, w2)
         | (Ret (Some cs), w2) \<Rightarrow>
           (Ret (Some \<lparr>gall_no = gall_no a, date = date a, header = header a,
                       title = title a, view_count = view_count a, content = content a,
                       recommend_count = recommend_count a,
                       nonrecommend_count = nonrecommend_count a, comments = cs\<rparr>), w2)))"

section \<open>DCArticleCrawler\<close>

text \<open>
  The constructor's arguments that decide the control flow. The waiting times, the
  headless switch and the excluded heads do not; \<open>jsonl_path\<close> names the file that is
  the \<open>store\<close> of the world, in a directory that can be created.
\<close>

record crawler =
  gallery_id :: string
  gall_type :: string
  start_gall_no :: "int option"
  end_gall_no :: "int option"
  start_date :: "string option"
  end_date :: "string option"
  is_crawl_comments :: bool
  maximum_batch_size :: int

type_synonym batch = "article_data option list"

text \<open>The truth value Python gives an optional integer and an optional string.\<close>

definition bool_int :: "int option \<Rightarrow> bool" where
  "bool_int x = (case x of None \<Rightarrow> False | Some n \<Rightarrow> n \<noteq> 0)"

definition bool_str :: "string option \<Rightarrow> bool" where
  "bool_str x = (case x of None \<Rightarrow> False | Some s \<Rightarrow> s \<noteq> [])"

definition listing_url :: "string \<Rightarrow> string" where
  "listing_url url = replace_str ''view'' ''lists'' (replace_str ''&no=1'' [] url)"

definition check_gallery_conditions :: "env \<Rightarrow> crawler \<Rightarrow> world \<Rightarrow> exn option \<times> world" where
  "check_gallery_conditions en c w =
     (case make_url_for_article (gall_type c) (gallery_id c) 1 of
        Raise e \<Rightarrow> (Some e, w)
      | Ret url \<Rightarrow>
        (let url_for_check = listing_url url;
             w1 = external (HttpGet url_for_check) w
         in case web en (clock w) url_for_check of
              RequestFailed \<Rightarrow> (Some RequestException, w1)
            | HttpInterrupted \<Rightarrow> (Some KeyboardInterrupt, w1)
            | Response r \<Rightarrow>
                (if status_code r = 404 then (Some (ValueError GalleryNotExist), w1)
                 else (None, w1))))"

text \<open>
  \<open>select_recent_gall_no\<close>: the first row that is not a notice and whose \<open>data-no\<close>
  passes \<open>isdigit\<close> decides; \<open>int\<close> of it raises ValueError when a character is a
  digit for \<open>isdigit\<close> only.
\<close>

fun select_recent_gall_no :: "row list \<Rightarrow> int res" where
  "select_recent_gall_no [] = Raise (ValueError NoRecentPost)"
| "select_recent_gall_no ((data_type, data_no) # post_rows) =
     (if data_type = Some ''icon_notice'' then select_recent_gall_no post_rows
      else if data_no \<noteq> [] \<and> list_all py_isdigit data_no then py_int data_no
      else select_recent_gall_no post_rows)"

text \<open>
  What \<open>check_scrapping_conditions\<close> leaves in the object when it returns: the first
  cursor \<open>gall_no\<close> and the flag \<open>crawl_article_based_on_gall_no\<close>, with the end of the
  range (flag set) or the two parsed dates (flag cleared).
\<close>

datatype plan =
    ByGallNo int int              \<comment> \<open>gall_no (= start_gall_no), end_gall_no\<close>
  | ByDate int datetime datetime  \<comment> \<open>gall_no (the most recent one), start_date, end_date\<close>

definition check_scrapping_conditions :: "env \<Rightarrow> crawler \<Rightarrow> world \<Rightarrow> plan res \<times> world" where
  "check_scrapping_conditions en c w =
     (if bool_int (start_gall_no c) \<noteq> bool_int (end_gall_no c)
      then (Raise (ValueError GallNoTogether), w)
      else if bool_str (start_date c) \<noteq> bool_str (end_date c)
      then (Raise (ValueError DateTogether), w)
      else
        (let has_gall_no_range = (start_gall_no c \<noteq> None \<and> end_gall_no c \<noteq> None);
             has_date_range = (start_date c \<noteq> None \<and> end_date c \<noteq> None)
         in if \<not> (has_gall_no_range \<or> has_date_range)
            then (Raise (ValueError NoConditions), w)
            else if has_gall_no_range \<and> has_date_range
            then (Raise (ValueError BothRanges), w)
            else
              (case (start_gall_no c, end_gall_no c, start_date c, end_date c) of
                 (Some s, Some e, _, _) \<Rightarrow>
                   (if s > e then (Raise (ValueError GallNoOrder), w)
                    else (Ret (ByGallNo s e), w))
               | (_, _, Some sd, Some ed) \<Rightarrow>
                   (case (strptime sd, strptime ed) of
                      (Some d1, Some d2) \<Rightarrow>
                        (if dt_less d2 d1 then (Raise (ValueError DateOrder), w)
                         else
                           (case make_url_for_article (gall_type c) (gallery_id c) 1 of
                              Raise e \<Rightarrow> (Raise e, w)
                            | Ret url \<Rightarrow>
                              (let temp_url = listing_url url;
                                   w1 = external (HttpGet temp_url) w
                               in case web en (clock w) temp_url of
                                    RequestFailed \<Rightarrow> (Raise RequestException, w1)
                                  | HttpInterrupted \<Rightarrow> (Raise KeyboardInterrupt, w1)
                                  | Response r \<Rightarrow>
                                      (case select_recent_gall_no (rows r) of
                                         Raise e \<Rightarrow> (Raise e, w1)
                                       | Ret recent_gall_no \<Rightarrow>
                                           (Ret (ByDate recent_gall_no d1 d2), w1)))))
                    | _ \<Rightarrow> (Raise (ValueError DateFormat), w))
               | _ \<Rightarrow> (Raise (ValueError NoConditions), w))))"

text \<open>
  \<open>load_collected_gall_no\<close>: a line that does not decode is skipped; any other exception
  (the file cannot be opened, a decoded line has no usable \<open>gall_no\<close>) is caught by the
  outer handler, which logs a warning and returns the empty set.
\<close>

fun collect_lines :: "line list \<Rightarrow> int set \<Rightarrow> int set option" where
  "collect_lines [] acc = Some acc"
| "collect_lines (Garbage # ls) acc = collect_lines ls acc"
| "collect_lines (JsonOther # ls) acc = None"
| "collect_lines (JsonArticle a # ls) acc = collect_lines ls (insert (s_gall_no a) acc)"

definition load_collected_gall_no :: "world \<Rightarrow> int set \<times> world" where
  "load_collected_gall_no w =
     (case store w of
        None \<Rightarrow> ({}, logger WARNING LoadFailed w)
      | Some ls \<Rightarrow>
        (case collect_lines ls {} of
           None \<Rightarrow> ({}, logger WARNING LoadFailed w)
         | Some collected \<Rightarrow> (collected, w)))"

text \<open>
  \<open>save_data_in_batch\<close>: the file is opened for appending (and so created); each article
  in turn has its date formatted, its counters converted with \<open>int\<close> and its line
  written. An exception leaves the lines already written in the file. A \<open>None\<close> in the
  batch raises AttributeError at \<open>article.date\<close>.
\<close>

definition to_stored :: "article_data \<Rightarrow> stored_article res" where
  "to_stored a =
     (case py_int (view_count a) of
        Raise e \<Rightarrow> Raise e
      | Ret v \<Rightarrow>
        (case py_int (recommend_count a) of
           Raise e \<Rightarrow> Raise e
         | Ret r \<Rightarrow>
           (case py_int (nonrecommend_count a) of
              Raise e \<Rightarrow> Raise e
            | Ret nr \<Rightarrow>
                Ret \<lparr>s_gall_no = gall_no a, s_date = map_option strftime (date a),
                     s_title = title a, s_view_count = v, s_content = content a,
                     s_recommend_count = r, s_nonrecommend_count = nr,
                     s_comments = comments a\<rparr>)))"

definition append_line :: "stored_article \<Rightarrow> world \<Rightarrow> world" where
  "append_line l w =
     w\<lparr>store := Some ((case store w of None \<Rightarrow> [] | Some ls \<Rightarrow> ls) @ [JsonArticle l]),
       trace := trace w @ [FileAppend l]\<rparr>"

fun write_batch :: "batch \<Rightarrow> world \<Rightarrow> exn option \<times> world" where
  "write_batch [] w = (None, w)"
| "write_batch (None # rest) w = (Some AttributeError, w)"
| "write_batch (Some a # rest) w =
     (case to_stored a of
        Raise e \<Rightarrow> (Some e, w)
      | Ret l \<Rightarrow> write_batch rest (append_line l w))"

definition save_data_in_batch :: "batch \<Rightarrow> world \<Rightarrow> exn option \<times> world" where
  "save_data_in_batch b w =
     write_batch b (w\<lparr>store := Some (case store w of None \<Rightarrow> [] | Some ls \<Rightarrow> ls)\<rparr>)"

text \<open>The three statements save, log, clear that \<open>run\<close> repeats at five places.\<close>

definition flush :: "batch \<Rightarrow> world \<Rightarrow> exn option \<times> batch \<times> world" where
  "flush b w =
     (case save_data_in_batch b w of
        (Some e, w1) \<Rightarrow> (Some e, b, w1)
      | (None, w1) \<Rightarrow> (None, [], logger INFO (Saved (length b)) w1))"

definition flush_if_full :: "crawler \<Rightarrow> batch \<Rightarrow> world \<Rightarrow> exn option \<times> batch \<times> world" where
  "flush_if_full c b w =
     (if int (length b) \<ge> maximum_batch_size c then flush b w else (None, b, w))"

datatype flow = Next | Break | Raised exn

text \<open>The end of an iteration: the cursor has moved, then \<open>time.sleep\<close>.\<close>

definition sleep_step :: "env \<Rightarrow> int \<Rightarrow> batch \<Rightarrow> world \<Rightarrow> flow \<times> int \<times> batch \<times> world" where
  "sleep_step en n b w =
     (if sleep_interrupted en (clock w)
      then (Raised KeyboardInterrupt, n, b, external Sleep w)
      else (Next, n, b, external Sleep w))"

definition new_processor :: "crawler \<Rightarrow> int \<Rightarrow> bool \<Rightarrow> processor" where
  "new_processor c n with_comments =
     \<lparr>p_gallery_id = gallery_id c, p_gall_type = gall_type c, p_gall_no = n,
      p_is_crawl_comments = with_comments\<rparr>"

text \<open>One iteration of the loop over the range of post numbers.\<close>

definition id_body :: "env \<Rightarrow> crawler \<Rightarrow> int set \<Rightarrow> int \<Rightarrow> batch \<Rightarrow> world \<Rightarrow> flow \<times> int \<times> batch \<times> world" where
  "id_body en c collected n b w =
     (if n \<in> collected then (Next, n + 1, b, logger INFO (AlreadyCollected n) w)
      else
        (case process_article en (new_processor c n (is_crawl_comments c))
                (logger INFO (Processing n) w) of
           (Raise e, w1) \<Rightarrow> (Raised e, n, b, w1)
         | (Ret article, w1) \<Rightarrow>
           (case flush_if_full c
                   (case article of Some a \<Rightarrow> b @ [Some a] | None \<Rightarrow> b)
                   (case article of Some a \<Rightarrow> logger INFO (Collected n) w1 | None \<Rightarrow> w1) of
              (Some e, b1, w2) \<Rightarrow> (Raised e, n, b1, w2)
            | (None, b1, w2) \<Rightarrow> sleep_step en (n + 1) b1 w2)))"

function id_loop :: "env \<Rightarrow> crawler \<Rightarrow> int set \<Rightarrow> int \<Rightarrow> int \<Rightarrow> batch \<Rightarrow> world
                      \<Rightarrow> exn option \<times> int \<times> batch \<times> world" where
  "id_loop en c collected e n b w =
     (if n \<le> e then
        (case id_body en c collected n b w of
           (Raised x, n', b', w') \<Rightarrow> (Some x, n', b', w')
         | (Break, n', b', w') \<Rightarrow> (None, n', b', w')
         | (Next, n', b', w') \<Rightarrow> id_loop en c collected e n' b' w')
      else (None, n, b, w))"
  by pat_completeness auto
termination
  by (relation "measure (\<lambda>(en, c, collected, e, n, b, w). nat (e + 1 - n))")
     (auto simp: id_body_def sleep_step_def split: if_splits prod.splits res.splits option.splits)

text \<open>
  One iteration of the loop that walks down from the most recent post. The first fetch
  is without comments; a post inside the window that is not yet collected is fetched a
  second time when comments are wanted, and what that second call returns is appended
  as it is. Comparing a datetime with a date that is \<open>None\<close> raises TypeError.
\<close>

definition date_body :: "env \<Rightarrow> crawler \<Rightarrow> int set \<Rightarrow> datetime \<Rightarrow> datetime \<Rightarrow> int \<Rightarrow> batch \<Rightarrow> world
                          \<Rightarrow> flow \<times> int \<times> batch \<times> world" where
  "date_body en c collected sd ed n b w =
     (case process_article en (new_processor c n False) w of
        (Raise e, w1) \<Rightarrow> (Raised e, n, b, w1)
      | (Ret None, w1) \<Rightarrow> (Next, n - 1, b, w1)
      | (Ret (Some article), w1) \<Rightarrow>
        (case date article of
           None \<Rightarrow> (Raised TypeError, n, b, w1)
         | Some d \<Rightarrow>
           (if dt_le sd d \<and> dt_le d ed then
              (if n \<in> collected
               then sleep_step en (n - 1) b (logger INFO (AlreadyCollected n) w1)
               else
                 (case (if \<not> is_crawl_comments c then (Ret (Some article), logger INFO (Processing n) w1)
                        else process_article en (new_processor c n True)
                               (logger INFO (Processing n) w1)) of
                    (Raise e, w2) \<Rightarrow> (Raised e, n, b, w2)
                  | (Ret article2, w2) \<Rightarrow>
                    (case flush_if_full c (b @ [article2]) (logger INFO (Collected n) w2) of
                       (Some e, b1, w3) \<Rightarrow> (Raised e, n, b1, w3)
                     | (None, b1, w3) \<Rightarrow> sleep_step en (n - 1) b1 w3)))
            else if dt_less ed d
            then sleep_step en (n - 1) b (logger INFO (AfterEndDate n) w1)
            else if dt_less d sd
            then (Break, n, b, logger ERROR NoArticleBetween w1)
            else sleep_step en (n - 1) b w1)))"

text \<open>
  \<open>while True\<close>: the loop has no bound of its own, so the model counts iterations down
  from a fuel; \<open>None\<close> means that the loop is still running when the fuel is used up.
\<close>

fun date_loop :: "nat \<Rightarrow> env \<Rightarrow> crawler \<Rightarrow> int set \<Rightarrow> datetime \<Rightarrow> datetime \<Rightarrow> int \<Rightarrow> batch \<Rightarrow> world
                   \<Rightarrow> (exn option \<times> int \<times> batch \<times> world) option" where
  "date_loop 0 en c collected sd ed n b w = None"
| "date_loop (Suc fuel) en c collected sd ed n b w =
     (case date_body en c collected sd ed n b w of
        (Raised x, n', b', w') \<Rightarrow> Some (Some x, n', b', w')
      | (Break, n', b', w') \<Rightarrow> Some (None, n', b', w')
      | (Next, n', b', w') \<Rightarrow> date_loop fuel en c collected sd ed n' b' w')"

text \<open>The body of the \<open>try\<close> statement of \<open>run\<close>: the loop of the mode, then the last flush.\<close>

definition after_loop :: "exn option \<times> int \<times> batch \<times> world \<Rightarrow> exn option \<times> batch \<times> world" where
  "after_loop r = (case r of
       (Some x, n, b, w) \<Rightarrow> (Some x, b, w)
     | (None, n, b, w) \<Rightarrow> flush b w)"

definition try_body :: "nat \<Rightarrow> env \<Rightarrow> crawler \<Rightarrow> int set \<Rightarrow> plan \<Rightarrow> world
                         \<Rightarrow> (exn option \<times> batch \<times> world) option" where
  "try_body fuel en c collected pl w =
     (case pl of
        ByGallNo s e \<Rightarrow>
          Some (after_loop (id_loop en c collected e s [] (logger INFO CrawlByGallNo w)))
      | ByDate recent sd ed \<Rightarrow>
          map_option after_loop
            (date_loop fuel en c collected sd ed recent [] (logger INFO CrawlByDate w)))"

text \<open>\<open>except KeyboardInterrupt\<close>: save, log, clear; any other exception passes through.\<close>

definition except_keyboard_interrupt :: "exn option \<times> batch \<times> world \<Rightarrow> exn option \<times> batch \<times> world" where
  "except_keyboard_interrupt r = (case r of
       (Some x, b, w) \<Rightarrow> (if x = KeyboardInterrupt then flush b w else (Some x, b, w))
     | (None, b, w) \<Rightarrow> (None, b, w))"

text \<open>\<open>finally\<close>: \<open>self.driver.quit()\<close>.\<close>

definition finally_quit :: "exn option \<times> batch \<times> world \<Rightarrow> exn option \<times> world" where
  "finally_quit r = (case r of
       (x, b, w) \<Rightarrow> (x, emit DriverQuit (w\<lparr>driver_open := False\<rparr>)))"

text \<open>
  \<open>run\<close>: the result is the exception that leaves \<open>run\<close> (\<open>None\<close> for a normal return)
  and the world at that moment. The two checks stand before the \<open>try\<close> statement.
\<close>

definition run :: "nat \<Rightarrow> env \<Rightarrow> crawler \<Rightarrow> world \<Rightarrow> (exn option \<times> world) option" where
  "run fuel en c w =
     (case check_gallery_conditions en c w of
        (Some e, w1) \<Rightarrow> Some (Some e, w1)
      | (None, w1) \<Rightarrow>
        (case check_scrapping_conditions en c w1 of
           (Raise e, w2) \<Rightarrow> Some (Some e, w2)
         | (Ret pl, w2) \<Rightarrow>
           (case load_collected_gall_no w2 of
              (collected, w3) \<Rightarrow>
                map_option (\<lambda>r. finally_quit (except_keyboard_interrupt r))
                  (try_body fuel en c collected pl
                     (logger INFO (if start_gall_no c \<noteq> None then StartEndGallNo else StartEndDate)
                        (logger INFO Initialized w3))))))"

text \<open>A new process: the constructor has started the browser, nothing has happened yet.\<close>

definition new_world :: "line list option \<Rightarrow> world" where
  "new_world file = \<lparr>store = file, driver_open = True, clock = 0, trace = []\<rparr>"

section \<open>Observations on a world\<close>

definition store_lines :: "world \<Rightarrow> line list" where
  "store_lines w = (case store w of None \<Rightarrow> [] | Some ls \<Rightarrow> ls)"

text \<open>The post numbers of the records in the file, and of the records in a batch.\<close>

fun line_ids :: "line list \<Rightarrow> int list" where
  "line_ids [] = []"
| "line_ids (JsonArticle a # ls) = s_gall_no a # line_ids ls"
| "line_ids (_ # ls) = line_ids ls"

fun batch_ids :: "batch \<Rightarrow> int list" where
  "batch_ids [] = []"
| "batch_ids (Some a # b) = gall_no a # batch_ids b"
| "batch_ids (None # b) = batch_ids b"

text \<open>
  \<open>quiet w w'\<close>: between the two worlds the file and the browser were left alone, and
  what happened contains no sleep, no write to the file and no \<open>driver.quit\<close>.
\<close>

definition quiet :: "world \<Rightarrow> world \<Rightarrow> bool" where
  "quiet w w' = (store w' = store w \<and> driver_open w' = driver_open w \<and>
     (\<exists>evs. trace w' = trace w @ evs \<and> Sleep \<notin> set evs \<and> DriverQuit \<notin> set evs
            \<and> (\<forall>l. FileAppend l \<notin> set evs)))"

section \<open>Scenarios\<close>

text \<open>A post page with every element present, dated by the given text.\<close>

definition post_page :: "string \<Rightarrow> page" where
  "post_page date_text =
     \<lparr>el_gall_date = Some date_text, el_headtext = Some ''[a]'', el_subject = Some ''t'',
      el_write_div = Some ''c'', el_recommend_up = Some ''1'', el_recommend_down = Some ''0'',
      el_gall_count = Some ''v 7''\<rparr>"

text \<open>A response with status 200; as a listing page its first regular row is post 10.\<close>

definition served :: "page \<Rightarrow> http_outcome" where
  "served pg = Response \<lparr>status_code = 200, doc = pg,
                          rows = [(Some ''icon_notice'', ''99''), (None, ''10'')]\<rparr>"

text \<open>A service on which every request succeeds and every post is dated 1 June 2025.\<close>

definition steady_env :: env where
  "steady_env = \<lparr>web = (\<lambda>t u. served (post_page ''2025.06.01 10:00:00'')),
                  browser = (\<lambda>t u. WaitTimedOut), sleep_interrupted = (\<lambda>t. False)\<rparr>"

text \<open>A service on which every request fails.\<close>

definition dead_env :: env where
  "dead_env = \<lparr>web = (\<lambda>t u. RequestFailed), browser = (\<lambda>t u. WaitTimedOut),
                sleep_interrupted = (\<lambda>t. False)\<rparr>"

text \<open>A service that answers every request with status 404.\<close>

definition missing_env :: env where
  "missing_env = \<lparr>web = (\<lambda>t u. Response \<lparr>status_code = 404, doc = post_page [], rows = []\<rparr>),
                   browser = (\<lambda>t u. WaitTimedOut), sleep_interrupted = (\<lambda>t. False)\<rparr>"

definition only_start :: crawler where
  "only_start = \<lparr>gallery_id = ''g'', gall_type = ''main'', start_gall_no = Some 5,
                 end_gall_no = None, start_date = None, end_date = None,
                 is_crawl_comments = False, maximum_batch_size = 100\<rparr>"

definition both_ranges :: crawler where
  "both_ranges = \<lparr>gallery_id = ''g'', gall_type = ''main'', start_gall_no = Some 1,
                  end_gall_no = Some 3, start_date = Some ''2025.05.26'',
                  end_date = Some ''2025.06.06'',
                  is_crawl_comments = False, maximum_batch_size = 100\<rparr>"

definition by_date :: crawler where
  "by_date = \<lparr>gallery_id = ''g'', gall_type = ''main'', start_gall_no = None,
              end_gall_no = None, start_date = Some ''2025.05.26'',
              end_date = Some ''2025.06.06'',
              is_crawl_comments = False, maximum_batch_size = 100\<rparr>"

text \<open>
  The outcome of at most \<open>k\<close> iterations of the loop by date: the first outcome that
  is not \<open>Next\<close>, or the cursor, the batch and the world after \<open>k\<close> iterations.
\<close>

fun date_iterate :: "nat \<Rightarrow> env \<Rightarrow> crawler \<Rightarrow> int set \<Rightarrow> datetime \<Rightarrow> datetime \<Rightarrow> int \<Rightarrow> batch \<Rightarrow> world
                      \<Rightarrow> flow \<times> int \<times> batch \<times> world" where
  "date_iterate 0 en c collected sd ed n b w = (Next, n, b, w)"
| "date_iterate (Suc k) en c collected sd ed n b w =
     (case date_body en c collected sd ed n b w of
        (Next, n', b', w') \<Rightarrow> date_iterate k en c collected sd ed n' b' w'
      | r \<Rightarrow> r)"

text \<open>A service on which every post is dated 1 May 2025.\<close>

definition old_env :: env where
  "old_env = \<lparr>web = (\<lambda>t u. served (post_page ''2025.05.01 10:00:00'')),
               browser = (\<lambda>t u. WaitTimedOut), sleep_interrupted = (\<lambda>t. False)\<rparr>"

text \<open>A service on which the date of every post is written with dashes.\<close>

definition dashed_env :: env where
  "dashed_env = \<lparr>web = (\<lambda>t u. served (post_page ''2025-06-01 10:00:00'')),
                  browser = (\<lambda>t u. WaitTimedOut), sleep_interrupted = (\<lambda>t. False)\<rparr>"

text \<open>A service on which the pages have no title element.\<close>

definition untitled_env :: env where
  "untitled_env = \<lparr>web = (\<lambda>t u. served ((post_page ''2025.06.01 10:00:00'')\<lparr>el_subject := None\<rparr>)),
                    browser = (\<lambda>t u. WaitTimedOut), sleep_interrupted = (\<lambda>t. False)\<rparr>"

definition one_post :: crawler where
  "one_post = \<lparr>gallery_id = ''g'', gall_type = ''main'', start_gall_no = Some 7,
               end_gall_no = Some 7, start_date = None, end_date = None,
               is_crawl_comments = False, maximum_batch_size = 100\<rparr>"

definition by_date_comments :: crawler where
  "by_date_comments = by_date\<lparr>is_crawl_comments := True\<rparr>"

text \<open>
  A service whose fourth request fails (the second fetch of the first post of a crawl
  by date with comments); the posts fetched before are dated 1 June 2025, the later ones
  1 May 2025.
\<close>

definition flaky_env :: env where
  "flaky_env = \<lparr>web = (\<lambda>t u. if t = 3 then RequestFailed
                               else if t < 3 then served (post_page ''2025.06.01 10:00:00'')
                               else served (post_page ''2025.05.01 10:00:00'')),
                 browser = (\<lambda>t u. WaitTimedOut), sleep_interrupted = (\<lambda>t. False)\<rparr>"

text \<open>
  The same failure of the fourth request, every post dated 1 June 2025, and Ctrl-C
  during the sleep that follows the second post.
\<close>

definition interrupted_env :: env where
  "interrupted_env = \<lparr>web = (\<lambda>t u. if t = 3 then RequestFailed
                               else served (post_page ''2025.06.01 10:00:00'')),
                 browser = (\<lambda>t u. WaitTimedOut), sleep_interrupted = (\<lambda>t. t = 8)\<rparr>"

text \<open>What is left when \<open>run\<close> ends: the exception, the file, whether the browser is open.\<close>

definition outcome :: "(exn option \<times> world) option \<Rightarrow> (exn option \<times> line list option \<times> bool) option" where
  "outcome r = map_option (\<lambda>(x, w). (x, store w, driver_open w)) r"

text \<open>How a loop ended and the batch it left.\<close>

definition pending :: "(exn option \<times> int \<times> batch \<times> world) option \<Rightarrow> (exn option \<times> batch) option" where
  "pending r = map_option (\<lambda>(x, n, b, w). (x, b)) r"

text \<open>
  \<open>kept a b w\<close>: the record is in the batch, or its line is in the file.
\<close>

definition kept :: "article_data \<Rightarrow> batch \<Rightarrow> world \<Rightarrow> bool" where
  "kept a b w = (Some a \<in> set b \<or>
     (case to_stored a of Ret l \<Rightarrow> JsonArticle l \<in> set (store_lines w) | Raise e \<Rightarrow> False))"



text \<open>
  \<open>store_sound\<close>: every line of the file is a record or does not decode, and no post
  number occurs in two records.
\<close>

definition store_sound :: "world \<Rightarrow> bool" where
  "store_sound w = (JsonOther \<notin> set (store_lines w) \<and> distinct (line_ids (store_lines w)))"

text \<open>
  The invariant of the loop over the post numbers: no post number occurs twice in the
  file and the batch together, and each of them was collected before the run or lies
  below the cursor.
\<close>

definition crawl_inv :: "int set \<Rightarrow> int \<Rightarrow> batch \<Rightarrow> world \<Rightarrow> bool" where
  "crawl_inv collected n b w =
     (JsonOther \<notin> set (store_lines w)
      \<and> distinct (line_ids (store_lines w) @ batch_ids b)
      \<and> set (line_ids (store_lines w)) \<union> set (batch_ids b) \<subseteq> collected \<union> {i. i < n})"

text \<open>\<open>grows w w'\<close>: the file of \<open>w'\<close> is the file of \<open>w\<close> with lines appended.\<close>

definition grows :: "world \<Rightarrow> world \<Rightarrow> bool" where
  "grows w w' = (\<exists>added. store_lines w' = store_lines w @ added)"


section \<open>What the processor leaves alone\<close>

lemma quiet_refl: "quiet w w"
  by (simp add: quiet_def)

lemma quiet_trans: "quiet w w1 \<Longrightarrow> quiet w1 w2 \<Longrightarrow> quiet w w2"
  by (auto simp: quiet_def)

lemma quiet_logger: "quiet w (logger l m w)"
  by (simp add: quiet_def logger_def emit_def)

lemma quiet_http: "quiet w (external (HttpGet u) w)"
  by (simp add: quiet_def external_def)

lemma quiet_driver: "quiet w (external (DriverGet u) w)"
  by (simp add: quiet_def external_def)

lemma quiet_logger_after: "quiet w w1 \<Longrightarrow> quiet w (logger l m w1)"
  using quiet_trans quiet_logger by blast

lemma extract_article_quiet:
  "extract_article p pg w = (r, w1) \<Longrightarrow> quiet w w1"
  by (auto simp: extract_article_def Let_def quiet_refl quiet_logger
           split: option.splits res.splits)

lemma extract_article_gall_no:
  "extract_article p pg w = (Ret (Some a), w1) \<Longrightarrow> gall_no a = p_gall_no p"
  by (auto simp: extract_article_def Let_def split: option.splits res.splits)

lemma crawl_except_comment_quiet:
  "crawl_except_comment en p w = (r, w1) \<Longrightarrow> quiet w w1"
  by (auto simp: crawl_except_comment_def Let_def quiet_refl quiet_http quiet_logger_after
           split: res.splits http_outcome.splits
           dest!: extract_article_quiet intro: quiet_trans[OF quiet_http])

lemma crawl_except_comment_gall_no:
  "crawl_except_comment en p w = (Ret (Some a), w1) \<Longrightarrow> gall_no a = p_gall_no p"
  by (auto simp: crawl_except_comment_def Let_def
           split: res.splits http_outcome.splits dest: extract_article_gall_no)

lemma crawl_comments_quiet:
  "crawl_comments en p w = (r, w1) \<Longrightarrow> quiet w w1"
  by (auto simp: crawl_comments_def Let_def quiet_refl quiet_driver quiet_logger_after
           split: res.splits driver_outcome.splits)

lemma process_article_quiet:
  "process_article en p w = (r, w1) \<Longrightarrow> quiet w w1"
  by (auto simp: process_article_def quiet_refl
           split: prod.splits res.splits option.splits if_splits
           dest!: crawl_except_comment_quiet crawl_comments_quiet intro: quiet_trans)

lemma process_article_gall_no:
  "process_article en p w = (Ret (Some a), w1) \<Longrightarrow> gall_no a = p_gall_no p"
  by (auto simp: process_article_def
           split: prod.splits res.splits option.splits if_splits
           dest!: crawl_except_comment_gall_no)

section \<open>Validation of the bounds\<close>

lemma py_int_raises: "py_int s = Raise e \<Longrightarrow> e = ValueError IntLiteral"
  by (auto simp: py_int_def Let_def split: if_splits)

lemma select_recent_gall_no_raises:
  "select_recent_gall_no rs = Raise e \<Longrightarrow> e = ValueError NoRecentPost \<or> e = ValueError IntLiteral"
  by (induction rs rule: select_recent_gall_no.induct) (auto split: if_splits dest: py_int_raises)

lemma check_scrapping_conditions_config_error:
  assumes "check_scrapping_conditions en c w = (Raise (ValueError v), w')"
      and "v \<noteq> NoRecentPost" and "v \<noteq> IntLiteral"
  shows "w' = w"
  using assms
  by (auto simp: check_scrapping_conditions_def Let_def
           split: if_splits option.splits res.splits http_outcome.splits prod.splits
           dest: select_recent_gall_no_raises)

lemma check_gallery_conditions_passes:
  assumes "check_gallery_conditions en c w = (None, w1)"
  shows "\<exists>url. make_url_for_article (gall_type c) (gallery_id c) 1 = Ret url
               \<and> w1 = external (HttpGet (listing_url url)) w"
  using assms
  by (auto simp: check_gallery_conditions_def Let_def
           split: res.splits http_outcome.splits if_splits)

text \<open>
  C8 (the pair check passes exactly when both bounds of a pair are set, an id of 0
  included): the check compares the truth values of the two bounds, and 0 is false. With
  \<open>start_gall_no = 0\<close> and \<open>end_gall_no = 5\<close>, both set, the check raises "must be
  provided together"; with only \<open>end_gall_no = 0\<close> set beside a date range, the pair
  check passes and the configuration is accepted as a date range.
\<close>

theorem C8_zero_bound_defeats_pair_check:
  "check_scrapping_conditions en (c\<lparr>start_gall_no := Some 0, end_gall_no := Some 5\<rparr>) w
     = (Raise (ValueError GallNoTogether), w)
   \<and> fst (check_scrapping_conditions steady_env
            (by_date\<lparr>start_gall_no := None, end_gall_no := Some 0\<rparr>) (new_world None))
     = Ret (ByDate 10 (2025, 5, 26) (2025, 6, 6))"
proof
  show "check_scrapping_conditions en (c\<lparr>start_gall_no := Some 0, end_gall_no := Some 5\<rparr>) w
     = (Raise (ValueError GallNoTogether), w)"
    by (simp add: check_scrapping_conditions_def bool_int_def)
next
  show "fst (check_scrapping_conditions steady_env
            (by_date\<lparr>start_gall_no := None, end_gall_no := Some 0\<rparr>) (new_world None))
     = Ret (ByDate 10 (2025, 5, 26) (2025, 6, 6))"
    by code_simp
qed

text \<open>
  C7 as stated (no request is issued before the bounds are validated) fails: \<open>run\<close>
  calls \<open>check_gallery_conditions\<close> first, which requests the listing page of the board.
  With only \<open>start_gall_no\<close> given, the error is raised after that request.
\<close>

theorem C7_request_precedes_validation:
  "run 0 steady_env only_start (new_world None) =
     Some (Some (ValueError GallNoTogether),
           \<lparr>store = None, driver_open = True, clock = 1,
            trace = [HttpGet ''https://gall.dcinside.com/board/lists/?id=g'']\<rparr>)"
  by code_simp

text \<open>
  C7 amended: when the existence check of the board has passed and the bounds are then
  rejected (any of the errors of \<open>check_scrapping_conditions\<close> other than the two of
  the lookup of the most recent post, which are no errors of the bounds), the validation
  itself has issued no request; \<open>run\<close> ends with that error after exactly one request,
  the one of the existence check, without reading or writing the file and without
  touching the browser.
\<close>

theorem C7_bounds_rejected_after_one_request:
  assumes "check_gallery_conditions en c w = (None, w1)"
      and "check_scrapping_conditions en c w1 = (Raise (ValueError v), w2)"
      and "v \<noteq> NoRecentPost" and "v \<noteq> IntLiteral"
  shows "w2 = w1 \<and> run fuel en c w = Some (Some (ValueError v), w1)
         \<and> store w1 = store w \<and> driver_open w1 = driver_open w \<and> clock w1 = Suc (clock w)
         \<and> (\<exists>url. make_url_for_article (gall_type c) (gallery_id c) 1 = Ret url
                  \<and> trace w1 = trace w @ [HttpGet (listing_url url)])"
proof -
  have same: "w2 = w1"
    using check_scrapping_conditions_config_error[OF assms(2,3,4)] .
  obtain url where url: "make_url_for_article (gall_type c) (gallery_id c) 1 = Ret url"
      and w1: "w1 = external (HttpGet (listing_url url)) w"
    using check_gallery_conditions_passes[OF assms(1)] by blast
  have "run fuel en c w = Some (Some (ValueError v), w1)"
    using assms(1,2) same by (simp add: run_def)
  with same url w1 show ?thesis
    by (simp add: external_def)
qed

theorem C7_bounds_rejected_after_one_request_witness:
  "check_gallery_conditions steady_env only_start (new_world None)
     = (None, \<lparr>store = None, driver_open = True, clock = 1,
               trace = [HttpGet ''https://gall.dcinside.com/board/lists/?id=g'']\<rparr>)
   \<and> check_scrapping_conditions steady_env only_start
        \<lparr>store = None, driver_open = True, clock = 1,
         trace = [HttpGet ''https://gall.dcinside.com/board/lists/?id=g'']\<rparr>
     = (Raise (ValueError GallNoTogether),
        \<lparr>store = None, driver_open = True, clock = 1,
         trace = [HttpGet ''https://gall.dcinside.com/board/lists/?id=g'']\<rparr>)
   \<and> GallNoTogether \<noteq> NoRecentPost \<and> GallNoTogether \<noteq> IntLiteral
   \<and> run 7 steady_env only_start (new_world None)
     = Some (Some (ValueError GallNoTogether),
             \<lparr>store = None, driver_open = True, clock = 1,
              trace = [HttpGet ''https://gall.dcinside.com/board/lists/?id=g'']\<rparr>)"
proof -
  let ?w1 = "\<lparr>store = None, driver_open = True, clock = 1,
              trace = [HttpGet ''https://gall.dcinside.com/board/lists/?id=g'']\<rparr>"
  have h1: "check_gallery_conditions steady_env only_start (new_world None) = (None, ?w1)"
    by code_simp
  have h2: "check_scrapping_conditions steady_env only_start ?w1
              = (Raise (ValueError GallNoTogether), ?w1)"
    by code_simp
  have h3: "GallNoTogether \<noteq> NoRecentPost"
    by simp
  have h4: "GallNoTogether \<noteq> IntLiteral"
    by simp
  from C7_bounds_rejected_after_one_request[OF h1 h2 h3 h4, of 7] h1 h2 h3 h4
  show ?thesis by simp
qed

text \<open>
  C2 (the browser is released on every exit path, a fatal error of the validation
  included): the two checks stand before the \<open>try\<close> statement whose \<open>finally\<close> quits the
  driver. When both a range of numbers and a range of dates are given, and when the
  board does not exist, \<open>run\<close> ends with the error while the browser is still open,
  and no \<open>driver.quit\<close> has happened.
\<close>

theorem C2_validation_error_leaves_driver_open:
  "run 0 steady_env both_ranges (new_world None) =
     Some (Some (ValueError BothRanges),
           \<lparr>store = None, driver_open = True, clock = 1,
            trace = [HttpGet ''https://gall.dcinside.com/board/lists/?id=g'']\<rparr>)
   \<and> run 0 missing_env by_date (new_world None) =
     Some (Some (ValueError GalleryNotExist),
           \<lparr>store = None, driver_open = True, clock = 1,
            trace = [HttpGet ''https://gall.dcinside.com/board/lists/?id=g'']\<rparr>)"
  by code_simp

section \<open>The loop by date\<close>

lemma sleep_step_flow: "sleep_step en n b w = (fl, n', b', w') \<Longrightarrow> fl \<noteq> Break \<and> n' = n \<and> b' = b"
  by (auto simp: sleep_step_def split: if_splits)

lemma date_body_null:
  assumes "process_article en (new_processor c n False) w = (Ret None, w1)"
  shows "date_body en c collected sd ed n b w = (Next, n - 1, b, w1)"
  using assms by (simp add: date_body_def)

text \<open>
  C9: in the loop by date, when the fetch of the post at the cursor returns \<open>None\<close> the
  iteration ends at once with the cursor decremented and the next iteration fetches
  there: the batch is unchanged, the loop goes on whatever the two dates are, and
  between the two worlds there is no sleep, no write and no \<open>driver.quit\<close>.
\<close>

theorem C9_null_fetch_retries_at_once:
  assumes "process_article en (new_processor c n False) w = (Ret None, w1)"
  shows "date_body en c collected sd ed n b w = (Next, n - 1, b, w1)
         \<and> date_loop (Suc k) en c collected sd ed n b w
             = date_loop k en c collected sd ed (n - 1) b w1
         \<and> quiet w w1"
  using assms date_body_null[OF assms] process_article_quiet[OF assms] by simp

theorem C9_null_fetch_retries_at_once_witness:
  "process_article dead_env (new_processor by_date 10 False) (new_world None)
     = (Ret None, \<lparr>store = None, driver_open = True, clock = 1,
          trace = [HttpGet ''https://gall.dcinside.com/board/view/?id=g&no=10'',
                   Log ERROR (FailedFetch 10)]\<rparr>)
   \<and> date_body dead_env by_date {} (2025, 5, 26) (2025, 6, 6) 10 [] (new_world None)
     = (Next, 9, [], \<lparr>store = None, driver_open = True, clock = 1,
          trace = [HttpGet ''https://gall.dcinside.com/board/view/?id=g&no=10'',
                   Log ERROR (FailedFetch 10)]\<rparr>)"
proof -
  have h: "process_article dead_env (new_processor by_date 10 False) (new_world None)
     = (Ret None, \<lparr>store = None, driver_open = True, clock = 1,
          trace = [HttpGet ''https://gall.dcinside.com/board/view/?id=g&no=10'',
                   Log ERROR (FailedFetch 10)]\<rparr>)"
    by code_simp
  from C9_null_fetch_retries_at_once[OF h, of "{}" "(2025, 5, 26)" "(2025, 6, 6)" "[]" 0] h
  show ?thesis by simp
qed

lemma date_body_break:
  assumes "date_body en c collected sd ed n b w = (Break, n', b', w')"
  shows "n' = n \<and> b' = b \<and> (\<exists>a d w1. process_article en (new_processor c n False) w = (Ret (Some a), w1)
            \<and> date a = Some d \<and> dt_less d sd \<and> \<not> (dt_le sd d \<and> dt_le d ed) \<and> \<not> dt_less ed d)"
  using assms
  by (auto simp: date_body_def split: prod.splits res.splits option.splits if_splits
           dest: sleep_step_flow)

lemma date_loop_normal_exit:
  "date_loop k en c collected sd ed n b w = Some (None, n', b', w') \<Longrightarrow>
     \<exists>w0 a d w1. process_article en (new_processor c n' False) w0 = (Ret (Some a), w1)
            \<and> date a = Some d \<and> dt_less d sd"
proof (induction k arbitrary: n b w)
  case 0
  then show ?case by simp
next
  case (Suc k)
  obtain fl n1 b1 w1 where body: "date_body en c collected sd ed n b w = (fl, n1, b1, w1)"
    by (metis prod_cases4)
  show ?case
  proof (cases fl)
    case Next
    with Suc.prems body have "date_loop k en c collected sd ed n1 b1 w1 = Some (None, n', b', w')"
      by simp
    then show ?thesis by (rule Suc.IH)
  next
    case Break
    with Suc.prems body have "n1 = n'" by simp
    moreover from date_body_break[OF body[unfolded Break]] have "n1 = n"
      "\<exists>a d w1. process_article en (new_processor c n False) w = (Ret (Some a), w1)
            \<and> date a = Some d \<and> dt_less d sd" by auto
    ultimately show ?thesis by blast
  next
    case (Raised x)
    with Suc.prems body show ?thesis by simp
  qed
qed

lemma date_iterate_null:
  assumes "\<forall>m w0. m \<le> n \<longrightarrow> fst (process_article en (new_processor c m False) w0) = Ret None"
  shows "\<exists>w'. date_iterate k en c collected sd ed n b w = (Next, n - int k, b, w')"
  using assms
proof (induction k arbitrary: n w)
  case 0
  then show ?case by simp
next
  case (Suc k)
  obtain w1 where f: "process_article en (new_processor c n False) w = (Ret None, w1)"
    using Suc.prems by (metis order_refl prod.collapse)
  have "\<forall>m w0. m \<le> n - 1 \<longrightarrow> fst (process_article en (new_processor c m False) w0) = Ret None"
    using Suc.prems by simp
  from Suc.IH[OF this, of w1] obtain w' where
    "date_iterate k en c collected sd ed (n - 1) b w1 = (Next, n - 1 - int k, b, w')" by blast
  then show ?case using date_body_null[OF f] by (simp add: algebra_simps)
qed

lemma date_loop_null:
  assumes "\<forall>m w0. m \<le> n \<longrightarrow> fst (process_article en (new_processor c m False) w0) = Ret None"
  shows "date_loop k en c collected sd ed n b w = None"
  using assms
proof (induction k arbitrary: n w)
  case 0
  then show ?case by simp
next
  case (Suc k)
  obtain w1 where f: "process_article en (new_processor c n False) w = (Ret None, w1)"
    using Suc.prems by (metis order_refl prod.collapse)
  have "\<forall>m w0. m \<le> n - 1 \<longrightarrow> fst (process_article en (new_processor c m False) w0) = Ret None"
    using Suc.prems by simp
  from Suc.IH[OF this, of w1] show ?case using date_body_null[OF f] by simp
qed

text \<open>
  C10: the loop by date returns normally only at a post whose fetch gave a record dated
  strictly before the start date. If the fetch returns \<open>None\<close> at the cursor and at
  every number below it, the loop is still running after any number \<open>k\<close> of
  iterations, and the cursor is then \<open>n - k\<close>: nothing stops it at zero.
\<close>

theorem C10_date_loop_exits_only_before_start:
  "(date_loop k en c collected sd ed n b w = Some (None, n', b', w') \<longrightarrow>
      (\<exists>w0 a d w1. process_article en (new_processor c n' False) w0 = (Ret (Some a), w1)
            \<and> date a = Some d \<and> dt_less d sd))
   \<and> ((\<forall>m w0. m \<le> n \<longrightarrow> fst (process_article en (new_processor c m False) w0) = Ret None) \<longrightarrow>
        date_loop k en c collected sd ed n b w = None
        \<and> (\<exists>w'. date_iterate k en c collected sd ed n b w = (Next, n - int k, b, w')))"
proof (intro conjI impI)
  assume "date_loop k en c collected sd ed n b w = Some (None, n', b', w')"
  then show "\<exists>w0 a d w1. process_article en (new_processor c n' False) w0 = (Ret (Some a), w1)
            \<and> date a = Some d \<and> dt_less d sd"
    by (rule date_loop_normal_exit)
next
  assume "\<forall>m w0. m \<le> n \<longrightarrow> fst (process_article en (new_processor c m False) w0) = Ret None"
  then show "date_loop k en c collected sd ed n b w = None"
    by (rule date_loop_null)
next
  assume "\<forall>m w0. m \<le> n \<longrightarrow> fst (process_article en (new_processor c m False) w0) = Ret None"
  then show "\<exists>w'. date_iterate k en c collected sd ed n b w = (Next, n - int k, b, w')"
    by (rule date_iterate_null)
qed

lemma dead_env_null:
  "fst (process_article dead_env (new_processor by_date m False) w0) = Ret None"
  by (simp add: process_article_def crawl_except_comment_def make_url_for_article_def
        new_processor_def by_date_def dead_env_def Let_def)

theorem C10_date_loop_exits_only_before_start_witness:
  "date_loop 1 old_env by_date {} (2025, 5, 26) (2025, 6, 6) 10 [] (new_world None)
     = Some (None, 10, [],
         \<lparr>store = None, driver_open = True, clock = 1,
          trace = [HttpGet ''https://gall.dcinside.com/board/view/?id=g&no=10'',
                   Log ERROR NoArticleBetween]\<rparr>)
   \<and> (\<exists>w0 a d w1. process_article old_env (new_processor by_date 10 False) w0 = (Ret (Some a), w1)
            \<and> date a = Some d \<and> dt_less d (2025, 5, 26))
   \<and> (\<forall>m w0. fst (process_article dead_env (new_processor by_date m False) w0) = Ret None)
   \<and> date_loop 12 dead_env by_date {} (2025, 5, 26) (2025, 6, 6) 10 [] (new_world None) = None
   \<and> (\<exists>w'. date_iterate 12 dead_env by_date {} (2025, 5, 26) (2025, 6, 6) 10 [] (new_world None)
             = (Next, - 2, [], w'))"
proof -
  have h1: "date_loop 1 old_env by_date {} (2025, 5, 26) (2025, 6, 6) 10 [] (new_world None)
     = Some (None, 10, [],
         \<lparr>store = None, driver_open = True, clock = 1,
          trace = [HttpGet ''https://gall.dcinside.com/board/view/?id=g&no=10'',
                   Log ERROR NoArticleBetween]\<rparr>)"
    by code_simp
  have h0: "\<forall>m w0. fst (process_article dead_env (new_processor by_date m False) w0) = Ret None"
    by (simp add: dead_env_null)
  then have h2: "\<forall>m w0. m \<le> 10 \<longrightarrow> fst (process_article dead_env (new_processor by_date m False) w0) = Ret None"
    by simp
  from C10_date_loop_exits_only_before_start[of 1 old_env by_date "{}" "(2025, 5, 26)" "(2025, 6, 6)" 10 "[]" "new_world None" 10 "[]"] h1
  have a: "\<exists>w0 a d w1. process_article old_env (new_processor by_date 10 False) w0 = (Ret (Some a), w1)
            \<and> date a = Some d \<and> dt_less d (2025, 5, 26)" by blast
  from C10_date_loop_exits_only_before_start[of 12 dead_env by_date "{}" "(2025, 5, 26)" "(2025, 6, 6)" 10 "[]" "new_world None"] h2
  have b: "date_loop 12 dead_env by_date {} (2025, 5, 26) (2025, 6, 6) 10 [] (new_world None) = None
   \<and> (\<exists>w'. date_iterate 12 dead_env by_date {} (2025, 5, 26) (2025, 6, 6) 10 [] (new_world None)
             = (Next, 10 - int 12, [], w'))" by blast
  from h1 h0 a b show ?thesis by simp
qed

section \<open>Failures of a single post\<close>

text \<open>
  C5 (a post whose date cannot be parsed is a fetch failure, so a fetched record never
  has a null date): \<open>parse_date\<close> returns \<open>None\<close> for the text
  \<open>2025-06-01 10:00:00\<close> and \<open>crawl_except_comment\<close> puts it in the record. By
  post number the record is saved with a null date; by date the comparison of the
  start date with \<open>None\<close> raises TypeError and ends the run.
\<close>

theorem C5_unparsed_date_gives_record_without_date:
  "fst (process_article dashed_env (new_processor one_post 7 False) (new_world None))
     = Ret (Some \<lparr>gall_no = 7, date = None, header = ''a'', title = ''t'',
                  view_count = ''7'', content = ''c'', recommend_count = ''1'',
                  nonrecommend_count = ''0'', comments = []\<rparr>)
   \<and> outcome (run 0 dashed_env one_post (new_world None))
     = Some (None, Some [JsonArticle \<lparr>s_gall_no = 7, s_date = None, s_title = ''t'',
                  s_view_count = 7, s_content = ''c'', s_recommend_count = 1,
                  s_nonrecommend_count = 0, s_comments = []\<rparr>], False)
   \<and> outcome (run 3 dashed_env by_date (new_world None)) = Some (Some TypeError, None, False)"
  by code_simp

text \<open>
  C1 (a fetch failure on one post is a skip, never fatal, and a failed second fetch
  never corrupts the batch): by date with comments, the second fetch of post 10 fails,
  its \<open>None\<close> is appended to the batch, and the last flush raises AttributeError on
  it; by post number, a page without title raises AttributeError out of the loop.
\<close>

theorem C1_fetch_failure_ends_the_run:
  "outcome (run 3 flaky_env by_date_comments (new_world None))
     = Some (Some AttributeError, Some [], False)
   \<and> outcome (run 0 untitled_env one_post (new_world None))
     = Some (Some AttributeError, None, False)"
  by code_simp

text \<open>
  C4 (on Ctrl-C every record of the batch is flushed): the batch holds the \<open>None\<close> of
  the failed second fetch of post 10 and then the record of post 9 when Ctrl-C arrives;
  the handler's save raises AttributeError at the \<open>None\<close>, and the record of post 9 is
  not in the file when the run ends.
\<close>

theorem C4_interrupt_loses_record_behind_failed_refetch:
  "pending (date_loop 3 interrupted_env by_date_comments {} (2025, 5, 26) (2025, 6, 6) 10 []
              ((new_world None)\<lparr>clock := 2\<rparr>))
     = Some (Some KeyboardInterrupt,
             [None, Some \<lparr>gall_no = 9, date = Some (2025, 6, 1), header = ''a'', title = ''t'',
                  view_count = ''7'', content = ''c'', recommend_count = ''1'',
                  nonrecommend_count = ''0'', comments = []\<rparr>])
   \<and> outcome (run 3 interrupted_env by_date_comments (new_world None))
     = Some (Some AttributeError, Some [], False)"
  by code_simp

section \<open>Saving the batch\<close>




lemma store_lines_append_line:
  "store_lines (append_line l w) = store_lines w @ [JsonArticle l]"
  by (simp add: append_line_def store_lines_def)

lemma write_batch_grows:
  "write_batch b w = (x, w') \<Longrightarrow> \<exists>added. store_lines w' = store_lines w @ added"
proof (induction b w rule: write_batch.induct)
  case (1 w)
  then show ?case by simp
next
  case (2 rest w)
  then show ?case by simp
next
  case (3 a rest w)
  show ?case
  proof (cases "to_stored a")
    case (Ret l)
    with 3 obtain added where "store_lines w' = store_lines (append_line l w) @ added"
      by auto
    then show ?thesis by (simp add: store_lines_append_line)
  next
    case (Raise e)
    with 3 show ?thesis by simp
  qed
qed

lemma write_batch_writes_all:
  "write_batch b w = (None, w') \<Longrightarrow> Some a \<in> set b \<Longrightarrow>
     (case to_stored a of Ret l \<Rightarrow> JsonArticle l \<in> set (store_lines w') | Raise e \<Rightarrow> False)"
proof (induction b w rule: write_batch.induct)
  case (1 w)
  then show ?case by simp
next
  case (2 rest w)
  then show ?case by simp
next
  case (3 a' rest w)
  show ?case
  proof (cases "to_stored a'")
    case (Raise e)
    with 3 show ?thesis by simp
  next
    case (Ret l)
    with "3.prems" have wb: "write_batch rest (append_line l w) = (None, w')" by simp
    show ?thesis
    proof (cases "a = a'")
      case True
      from write_batch_grows[OF wb] obtain added where
        "store_lines w' = store_lines (append_line l w) @ added" by blast
      then show ?thesis using True Ret by (simp add: store_lines_append_line)
    next
      case False
      with "3.prems" have "Some a \<in> set rest" by simp
      from "3.IH"[OF Ret wb this] show ?thesis .
    qed
  qed
qed

lemma to_stored_raises: "to_stored a = Raise e \<Longrightarrow> e = ValueError IntLiteral"
  by (auto simp: to_stored_def split: res.splits dest: py_int_raises)

lemma to_stored_gall_no: "to_stored a = Ret l \<Longrightarrow> s_gall_no l = gall_no a"
  by (auto simp: to_stored_def split: res.splits)

lemma write_batch_raises:
  "write_batch b w = (Some e, w') \<Longrightarrow> e = AttributeError \<or> e = ValueError IntLiteral"
  by (induction b w rule: write_batch.induct)
     (auto split: res.splits dest: to_stored_raises)

lemma flush_raises:
  "flush b w = (Some e, b', w') \<Longrightarrow> e = AttributeError \<or> e = ValueError IntLiteral"
  by (auto simp: flush_def save_data_in_batch_def split: prod.splits option.splits
           dest: write_batch_raises)

lemma flush_if_full_raises:
  "flush_if_full c b w = (Some e, b', w') \<Longrightarrow> e = AttributeError \<or> e = ValueError IntLiteral"
  by (auto simp: flush_if_full_def split: if_splits dest: flush_raises)

lemma store_lines_opened:
  "store_lines (w\<lparr>store := Some (case store w of None \<Rightarrow> [] | Some ls \<Rightarrow> ls)\<rparr>) = store_lines w"
  by (simp add: store_lines_def split: option.splits)

lemma flush_kept:
  assumes "flush b w = (None, b', w')" and "Some a \<in> set b"
  shows "kept a b' w'"
proof -
  from assms(1) obtain w1 where wb: "save_data_in_batch b w = (None, w1)"
      and w': "w' = logger INFO (Saved (length b)) w1"
    by (auto simp: flush_def split: prod.splits option.splits)
  from wb have "write_batch b (w\<lparr>store := Some (case store w of None \<Rightarrow> [] | Some ls \<Rightarrow> ls)\<rparr>) = (None, w1)"
    by (simp add: save_data_in_batch_def)
  from write_batch_writes_all[OF this assms(2)]
  have "case to_stored a of Ret l \<Rightarrow> JsonArticle l \<in> set (store_lines w1) | Raise e \<Rightarrow> False" .
  moreover have "store_lines w' = store_lines w1"
    by (simp add: w' logger_def emit_def store_lines_def)
  ultimately show ?thesis by (auto simp: kept_def split: res.splits)
qed


lemma write_batch_succeeds:
  "(\<And>x. x \<in> set b \<Longrightarrow> \<exists>a l. x = Some a \<and> to_stored a = Ret l) \<Longrightarrow> fst (write_batch b w) = None"
proof (induction b w rule: write_batch.induct)
  case (1 w)
  then show ?case by simp
next
  case (2 rest w)
  from "2.prems"[of None] show ?case by simp
next
  case (3 a rest w)
  from "3.prems"[of "Some a"] obtain l where l: "to_stored a = Ret l" by auto
  have "fst (write_batch rest (append_line l w)) = None"
    using "3.IH"[OF l] "3.prems" by simp
  then show ?case using l by simp
qed

section \<open>The date window\<close>

lemma sleep_step_result:
  "sleep_step en n b w = (fl, n', b', w') \<Longrightarrow>
     (fl = Next \<or> fl = Raised KeyboardInterrupt) \<and> n' = n \<and> b' = b \<and> w' = external Sleep w"
  by (auto simp: sleep_step_def split: if_splits)











lemma date_body_second_fetch_raises:
  assumes "process_article en (new_processor c n False) w = (Ret (Some a), w1)"
      and "date a = Some d" and "dt_le sd d" and "dt_le d ed" and "n \<notin> collected"
      and "is_crawl_comments c"
      and "process_article en (new_processor c n True) (logger INFO (Processing n) w1) = (Raise e, w2)"
  shows "date_body en c collected sd ed n b w = (Raised e, n, b, w2)"
  using assms by (simp add: date_body_def)





section \<open>No post number is written twice\<close>

lemma line_ids_append: "line_ids (xs @ ys) = line_ids xs @ line_ids ys"
  by (induction xs rule: line_ids.induct) auto

lemma batch_ids_append: "batch_ids (xs @ ys) = batch_ids xs @ batch_ids ys"
  by (induction xs rule: batch_ids.induct) auto

lemma grows_refl: "grows w w"
  by (simp add: grows_def)

lemma grows_trans: "grows w w1 \<Longrightarrow> grows w1 w2 \<Longrightarrow> grows w w2"
  by (auto simp: grows_def)

lemma grows_same: "store_lines w' = store_lines w \<Longrightarrow> grows w w'"
  by (simp add: grows_def)

lemma quiet_store_lines: "quiet w w' \<Longrightarrow> store_lines w' = store_lines w"
  by (simp add: quiet_def store_lines_def)

lemma store_lines_logger: "store_lines (logger l m w) = store_lines w"
  by (simp add: logger_def emit_def store_lines_def)

lemma store_lines_external: "store_lines (external e w) = store_lines w"
  by (simp add: external_def store_lines_def)

lemma crawl_inv_same:
  "store_lines w' = store_lines w \<Longrightarrow> crawl_inv coll n b w \<Longrightarrow> crawl_inv coll n b w'"
  by (simp add: crawl_inv_def)

lemma crawl_inv_mono: "crawl_inv coll n b w \<Longrightarrow> n \<le> m \<Longrightarrow> crawl_inv coll m b w"
  by (auto simp: crawl_inv_def)

lemma crawl_inv_sound: "crawl_inv coll n b w \<Longrightarrow> store_sound w"
  by (simp add: crawl_inv_def store_sound_def)

lemma crawl_inv_append:
  assumes "crawl_inv coll n b w" and "gall_no a = n" and "n \<notin> coll"
  shows "crawl_inv coll (n + 1) (b @ [Some a]) w"
  using assms by (auto simp: crawl_inv_def batch_ids_append)

text \<open>What a save adds to the file: lines of records of the batch, in order.\<close>

lemma write_batch_added:
  "write_batch b w = (x, w') \<Longrightarrow>
     \<exists>added rest. store_lines w' = store_lines w @ added \<and> JsonOther \<notin> set added
        \<and> batch_ids b = line_ids added @ rest \<and> (x = None \<longrightarrow> rest = [])"
proof (induction b w rule: write_batch.induct)
  case (1 w)
  then show ?case by simp
next
  case (2 rest w)
  then show ?case by auto
next
  case (3 a rest w)
  show ?case
  proof (cases "to_stored a")
    case (Raise e)
    with 3 show ?thesis by auto
  next
    case (Ret l)
    with "3.prems" have wb: "write_batch rest (append_line l w) = (x, w')" by simp
    from "3.IH"[OF Ret wb] obtain added r where
      a: "store_lines w' = store_lines (append_line l w) @ added" "JsonOther \<notin> set added"
         "batch_ids rest = line_ids added @ r" "x = None \<longrightarrow> r = []"
      by blast
    have "store_lines w' = store_lines w @ (JsonArticle l # added)"
      using a(1) by (simp add: store_lines_append_line)
    moreover have "JsonOther \<notin> set (JsonArticle l # added)" using a(2) by simp
    moreover have "batch_ids (Some a # rest) = line_ids (JsonArticle l # added) @ r"
      using a(3) to_stored_gall_no[OF Ret] by simp
    ultimately show ?thesis using a(4) by blast
  qed
qed

lemma flush_inv:
  assumes "crawl_inv coll n b w" and "flush b w = (x, b', w')"
  shows "store_sound w' \<and> grows w w' \<and> (x = None \<longrightarrow> crawl_inv coll n b' w')"
proof -
  let ?w0 = "w\<lparr>store := Some (case store w of None \<Rightarrow> [] | Some ls \<Rightarrow> ls)\<rparr>"
  obtain y w1 where wb: "write_batch b ?w0 = (y, w1)" by (metis surj_pair)
  from write_batch_added[OF wb] obtain added rest where
    a: "store_lines w1 = store_lines w @ added" "JsonOther \<notin> set added"
       "batch_ids b = line_ids added @ rest" "y = None \<longrightarrow> rest = []"
    by (auto simp: store_lines_opened)
  have inv1: "JsonOther \<notin> set (store_lines w1)"
    using assms(1) a by (simp add: crawl_inv_def)
  have inv2: "distinct (line_ids (store_lines w1))"
    using assms(1) a by (auto simp: crawl_inv_def line_ids_append)
  have inv3: "set (line_ids (store_lines w1)) \<subseteq> coll \<union> {i. i < n}"
    using assms(1) a by (auto simp: crawl_inv_def line_ids_append)
  show ?thesis
  proof (cases y)
    case None
    with assms(2) wb have r: "x = None" "b' = []" "w' = logger INFO (Saved (length b)) w1"
      by (auto simp: flush_def save_data_in_batch_def)
    have sl: "store_lines w' = store_lines w1" by (simp add: r store_lines_logger)
    show ?thesis using inv1 inv2 inv3 a(1) r(1,2) sl
      by (simp add: store_sound_def grows_def crawl_inv_def)
  next
    case (Some e)
    with assms(2) wb have r: "x = Some e" "w' = w1"
      by (auto simp: flush_def save_data_in_batch_def)
    show ?thesis using inv1 inv2 a(1) r
      by (simp add: store_sound_def grows_def)
  qed
qed

lemma flush_if_full_inv:
  assumes "crawl_inv coll n b w" and "flush_if_full c b w = (x, b', w')"
  shows "store_sound w' \<and> grows w w' \<and> (x = None \<longrightarrow> crawl_inv coll n b' w')"
proof (cases "int (length b) \<ge> maximum_batch_size c")
  case True
  with assms(2) have "flush b w = (x, b', w')" by (simp add: flush_if_full_def)
  from flush_inv[OF assms(1) this] show ?thesis .
next
  case False
  with assms(2) have "x = None" "b' = b" "w' = w" by (auto simp: flush_if_full_def)
  with assms(1) show ?thesis by (simp add: crawl_inv_sound grows_refl)
qed

lemma id_body_inv:
  assumes inv: "crawl_inv coll n b w"
      and body: "id_body en c coll n b w = (fl, n', b', w')"
  shows "store_sound w' \<and> grows w w' \<and> fl \<noteq> Break
         \<and> (fl = Next \<longrightarrow> n' = n + 1 \<and> crawl_inv coll n' b' w')
         \<and> (fl = Raised KeyboardInterrupt \<longrightarrow> crawl_inv coll (n + 1) b' w')"
proof (cases "n \<in> coll")
  case True
  with body have r: "fl = Next" "n' = n + 1" "b' = b" "w' = logger INFO (AlreadyCollected n) w"
    by (auto simp: id_body_def)
  have "crawl_inv coll (n + 1) b w'"
    using crawl_inv_mono[OF inv, of "n + 1"] by (simp add: r crawl_inv_def store_lines_logger)
  then show ?thesis using r by (auto simp: crawl_inv_sound grows_def store_lines_logger)
next
  case False
  obtain r w1 where pa: "process_article en (new_processor c n (is_crawl_comments c))
                           (logger INFO (Processing n) w) = (r, w1)"
    by (metis surj_pair)
  have sl1: "store_lines w1 = store_lines w"
    using quiet_store_lines[OF process_article_quiet[OF pa]] by (simp add: store_lines_logger)
  have inv1: "crawl_inv coll (n + 1) b w1"
    using crawl_inv_same[OF sl1 inv] crawl_inv_mono by fastforce
  show ?thesis
  proof (cases r)
    case (Raise e)
    with body pa False have "fl = Raised e" "n' = n" "b' = b" "w' = w1"
      by (auto simp: id_body_def)
    then show ?thesis using inv1 sl1 by (auto simp: crawl_inv_sound grows_def)
  next
    case (Ret article)
    let ?b1 = "(case article of Some a \<Rightarrow> b @ [Some a] | None \<Rightarrow> b)"
    let ?w2 = "(case article of Some a \<Rightarrow> logger INFO (Collected n) w1 | None \<Rightarrow> w1)"
    have sl2: "store_lines ?w2 = store_lines w" 
      using sl1 by (simp add: store_lines_logger split: option.splits)
    have inv2: "crawl_inv coll (n + 1) ?b1 ?w2"
    proof (cases article)
      case None
      then show ?thesis using inv1 by simp
    next
      case (Some a)
      have "gall_no a = n"
        using process_article_gall_no[OF pa[unfolded Ret Some]] by (simp add: new_processor_def)
      from crawl_inv_append[OF crawl_inv_same[OF sl1 inv] this False]
      have "crawl_inv coll (n + 1) (b @ [Some a]) w1" .
      then show ?thesis using Some by (simp add: crawl_inv_def store_lines_logger)
    qed
    obtain x b2 w3 where ff: "flush_if_full c ?b1 ?w2 = (x, b2, w3)" by (metis prod_cases3)
    from flush_if_full_inv[OF inv2 ff]
    have f: "store_sound w3" "grows ?w2 w3" "x = None \<longrightarrow> crawl_inv coll (n + 1) b2 w3" by auto
    have g3: "grows w w3" using f(2) sl2 by (simp add: grows_def)
    show ?thesis
    proof (cases x)
      case (Some e)
      with body pa False Ret ff have r: "fl = Raised e" "w' = w3"
        by (auto simp: id_body_def)
      have "e \<noteq> KeyboardInterrupt" using flush_if_full_raises[OF ff[unfolded Some]] by auto
      then show ?thesis using r f(1) g3 by simp
    next
      case None
      with body pa False Ret ff have "sleep_step en (n + 1) b2 w3 = (fl, n', b', w')"
        by (auto simp: id_body_def)
      from sleep_step_result[OF this]
      have r: "fl = Next \<or> fl = Raised KeyboardInterrupt" "n' = n + 1" "b' = b2" "w' = external Sleep w3"
        by auto
      have "crawl_inv coll (n + 1) b2 w'"
        using f(3) None by (simp add: r crawl_inv_def store_lines_external)
      moreover have "grows w w'" using g3 by (simp add: r grows_def store_lines_external)
      ultimately show ?thesis using r by (auto simp: crawl_inv_sound)
    qed
  qed
qed

lemma id_loop_inv:
  "crawl_inv coll n b w \<Longrightarrow> id_loop en c coll e n b w = (x, n', b', w') \<Longrightarrow>
     store_sound w' \<and> grows w w'
     \<and> (x = None \<or> x = Some KeyboardInterrupt \<longrightarrow> (\<exists>m. crawl_inv coll m b' w'))"
proof (induction en c coll e n b w rule: id_loop.induct)
  case (1 en c coll e n b w)
  show ?case
  proof (cases "n \<le> e")
    case False
    with "1.prems" have "x = None" "b' = b" "w' = w"
      by (auto simp: id_loop.simps[of en c coll e n b w])
    with "1.prems"(1) show ?thesis by (auto simp: crawl_inv_sound grows_refl)
  next
    case True
    obtain fl n1 b1 w1 where body: "id_body en c coll n b w = (fl, n1, b1, w1)"
      by (metis prod_cases4)
    from id_body_inv[OF "1.prems"(1) body]
    have f: "store_sound w1" "grows w w1" "fl \<noteq> Break"
      "fl = Next \<longrightarrow> n1 = n + 1 \<and> crawl_inv coll n1 b1 w1"
      "fl = Raised KeyboardInterrupt \<longrightarrow> crawl_inv coll (n + 1) b1 w1"
      by auto
    show ?thesis
    proof (cases fl)
      case Next
      with "1.prems"(2) True body have loop: "id_loop en c coll e n1 b1 w1 = (x, n', b', w')"
        by (simp add: id_loop.simps[of en c coll e n b w])
      from f(4) Next have inv1: "crawl_inv coll n1 b1 w1" by blast
      from "1.IH"[OF True body[symmetric] _ _ _ inv1 loop] Next
      have "store_sound w' \<and> grows w1 w'
         \<and> (x = None \<or> x = Some KeyboardInterrupt \<longrightarrow> (\<exists>m. crawl_inv coll m b' w'))"
        by simp
      then show ?thesis using f(2) grows_trans by blast
    next
      case Break
      with f(3) show ?thesis by simp
    next
      case (Raised ex)
      with "1.prems"(2) True body have r: "x = Some ex" "b' = b1" "w' = w1"
        by (auto simp: id_loop.simps[of en c coll e n b w])
      show ?thesis using f(1,2,5) r Raised by auto
    qed
  qed
qed

lemma ending_inv:
  assumes "store_sound w" and "x = None \<or> x = Some KeyboardInterrupt \<longrightarrow> (\<exists>m. crawl_inv coll m b w)"
      and "finally_quit (except_keyboard_interrupt (after_loop (x, n, b, w))) = (y, w')"
  shows "store_sound w' \<and> grows w w'"
proof -
  obtain x1 b1 w1 where al: "after_loop (x, n, b, w) = (x1, b1, w1)" by (metis prod_cases3)
  have s1: "store_sound w1 \<and> grows w w1
            \<and> (x1 = Some KeyboardInterrupt \<longrightarrow> (\<exists>m. crawl_inv coll m b1 w1))"
  proof (cases x)
    case None
    with assms(2) obtain m where m: "crawl_inv coll m b w" by blast
    from None al have fl: "flush b w = (x1, b1, w1)" by (simp add: after_loop_def)
    have "x1 \<noteq> Some KeyboardInterrupt" using flush_raises[of b w _ b1 w1] fl by auto
    with flush_inv[OF m fl] show ?thesis by simp
  next
    case (Some ex)
    with al have "x1 = Some ex" "b1 = b" "w1 = w" by (auto simp: after_loop_def)
    with Some assms(1,2) show ?thesis by (auto simp: grows_refl)
  qed
  obtain x2 b2 w2 where ek: "except_keyboard_interrupt (x1, b1, w1) = (x2, b2, w2)"
    by (metis prod_cases3)
  have s2: "store_sound w2 \<and> grows w1 w2"
  proof (cases "x1 = Some KeyboardInterrupt")
    case True
    with s1 obtain m where m: "crawl_inv coll m b1 w1" by blast
    from True ek have "flush b1 w1 = (x2, b2, w2)" by (simp add: except_keyboard_interrupt_def)
    from flush_inv[OF m this] show ?thesis by simp
  next
    case False
    with ek have "w2 = w1" by (auto simp: except_keyboard_interrupt_def split: option.splits)
    with s1 show ?thesis by (simp add: grows_refl)
  qed
  from assms(3) al ek have "store_lines w' = store_lines w2"
    by (auto simp: finally_quit_def emit_def store_lines_def)
  with s1 s2 show ?thesis
    by (auto simp: store_sound_def grows_def)
qed

lemma collect_lines_ids:
  "JsonOther \<notin> set ls \<Longrightarrow> collect_lines ls acc = Some (set (line_ids ls) \<union> acc)"
  by (induction ls acc rule: collect_lines.induct) auto

lemma load_collected_gall_no_ids:
  assumes "JsonOther \<notin> set (store_lines w)" and "load_collected_gall_no w = (coll, w')"
  shows "coll = set (line_ids (store_lines w)) \<and> store_lines w' = store_lines w"
proof (cases "store w")
  case None
  with assms(2) show ?thesis
    by (auto simp: load_collected_gall_no_def store_lines_def logger_def emit_def)
next
  case (Some ls)
  with assms(1) have "collect_lines ls {} = Some (set (line_ids ls) \<union> {})"
    by (intro collect_lines_ids) (simp add: store_lines_def)
  with Some assms(2) show ?thesis
    by (auto simp: load_collected_gall_no_def store_lines_def)
qed

lemma check_gallery_conditions_store:
  "check_gallery_conditions en c w = (x, w') \<Longrightarrow> store_lines w' = store_lines w"
  by (auto simp: check_gallery_conditions_def Let_def store_lines_external
           split: res.splits http_outcome.splits if_splits)

lemma check_scrapping_conditions_store:
  "check_scrapping_conditions en c w = (r, w') \<Longrightarrow> store_lines w' = store_lines w"
  by (auto simp: check_scrapping_conditions_def Let_def store_lines_external
           split: if_splits option.splits res.splits http_outcome.splits prod.splits)

lemma check_scrapping_conditions_no_dates:
  assumes "start_date c = None" and "check_scrapping_conditions en c w = (Ret pl, w')"
  shows "\<exists>s e. pl = ByGallNo s e \<and> start_gall_no c = Some s"
  using assms
  by (auto simp: check_scrapping_conditions_def Let_def
           split: if_splits option.splits)

lemma run_by_gall_no:
  assumes "start_date c = None" and "store_sound w"
  shows "\<exists>x w'. run fuel en c w = Some (x, w') \<and> store_sound w' \<and> grows w w'"
proof -
  obtain x1 w1 where g: "check_gallery_conditions en c w = (x1, w1)" by (metis surj_pair)
  have sl1: "store_lines w1 = store_lines w" using check_gallery_conditions_store[OF g] .
  show ?thesis
  proof (cases x1)
    case (Some e)
    with g have "run fuel en c w = Some (Some e, w1)" by (simp add: run_def)
    with assms(2) sl1 show ?thesis by (simp add: store_sound_def grows_def)
  next
    case None
    obtain r w2 where sc: "check_scrapping_conditions en c w1 = (r, w2)" by (metis surj_pair)
    have sl2: "store_lines w2 = store_lines w"
      using check_scrapping_conditions_store[OF sc] sl1 by simp
    show ?thesis
    proof (cases r)
      case (Raise e)
      with g None sc have "run fuel en c w = Some (Some e, w2)" by (simp add: run_def)
      with assms(2) sl2 show ?thesis by (simp add: store_sound_def grows_def)
    next
      case (Ret pl)
      from check_scrapping_conditions_no_dates[OF assms(1) sc[unfolded Ret]]
      obtain s e where pl: "pl = ByGallNo s e" by blast
      obtain coll w3 where ld: "load_collected_gall_no w2 = (coll, w3)" by (metis surj_pair)
      have "JsonOther \<notin> set (store_lines w2)" using assms(2) sl2 by (simp add: store_sound_def)
      from load_collected_gall_no_ids[OF this ld]
      have coll: "coll = set (line_ids (store_lines w))" and sl3: "store_lines w3 = store_lines w"
        using sl2 by auto
      let ?w4 = "logger INFO CrawlByGallNo
                   (logger INFO (if start_gall_no c \<noteq> None then StartEndGallNo else StartEndDate)
                      (logger INFO Initialized w3))"
      have sl4: "store_lines ?w4 = store_lines w" by (simp add: store_lines_logger sl3)
      have inv: "crawl_inv coll s [] ?w4"
        using assms(2) by (auto simp: crawl_inv_def store_lines_logger sl3 coll store_sound_def)
      obtain x n' b' w5 where lp: "id_loop en c coll e s [] ?w4 = (x, n', b', w5)"
        by (metis prod_cases4)
      from id_loop_inv[OF inv lp]
      have f: "store_sound w5" "grows ?w4 w5"
        "x = None \<or> x = Some KeyboardInterrupt \<longrightarrow> (\<exists>m. crawl_inv coll m b' w5)" by auto
      obtain y w6 where fin: "finally_quit (except_keyboard_interrupt (after_loop (x, n', b', w5))) = (y, w6)"
        by (metis surj_pair)
      from ending_inv[OF f(1) f(3) fin] have e: "store_sound w6" "grows w5 w6" by auto
      have "run fuel en c w = Some (y, w6)"
        using g None sc Ret pl ld lp fin by (simp add: run_def try_body_def)
      moreover have "grows w w6" using f(2) e(2) sl4 by (auto simp: grows_def)
      ultimately show ?thesis using e(1) by blast
    qed
  qed
qed

lemma store_lines_new_world: "store_lines (new_world (store w)) = store_lines w"
  by (simp add: new_world_def store_lines_def)

text \<open>
  C3: take a configuration without start date, so that a crawl that starts is a crawl by
  post number, and a file in which every line is a record or does not decode and no
  post number occurs twice (an absent or empty file, or a file this program wrote). Run
  the crawler, then run it again on the file the first run left, whatever the remote
  service and the terminal do in either run: both runs end, no post number occurs in
  two records of the file, and what the second run appended has no post number that
  the file held before.
\<close>

theorem C3_dedup_idempotence:
  assumes "start_date c = None"
      and "JsonOther \<notin> set (store_lines (new_world file))"
      and "distinct (line_ids (store_lines (new_world file)))"
  shows "\<exists>x1 w1 x2 w2.
           run f1 en1 c (new_world file) = Some (x1, w1)
           \<and> run f2 en2 c (new_world (store w1)) = Some (x2, w2)
           \<and> distinct (line_ids (store_lines w2))
           \<and> (\<exists>added. store_lines w2 = store_lines w1 @ added
                 \<and> set (line_ids added) \<inter> set (line_ids (store_lines w1)) = {})"
proof -
  have s0: "store_sound (new_world file)" using assms(2,3) by (simp add: store_sound_def)
  from run_by_gall_no[OF assms(1) s0, of f1 en1] obtain x1 w1 where
    r1: "run f1 en1 c (new_world file) = Some (x1, w1)" and s1: "store_sound w1" by blast
  have "store_sound (new_world (store w1))"
    using s1 by (simp add: store_sound_def store_lines_new_world)
  from run_by_gall_no[OF assms(1) this, of f2 en2] obtain x2 w2 where
    r2: "run f2 en2 c (new_world (store w1)) = Some (x2, w2)" and s2: "store_sound w2"
    and g2: "grows (new_world (store w1)) w2" by blast
  from g2 obtain added where a: "store_lines w2 = store_lines w1 @ added"
    by (auto simp: grows_def store_lines_new_world)
  have "distinct (line_ids (store_lines w2))" using s2 by (simp add: store_sound_def)
  moreover from this a have "set (line_ids added) \<inter> set (line_ids (store_lines w1)) = {}"
    by (auto simp: line_ids_append)
  ultimately show ?thesis using r1 r2 a by blast
qed

theorem C3_dedup_idempotence_witness:
  "start_date one_post = None
   \<and> JsonOther \<notin> set (store_lines (new_world None))
   \<and> distinct (line_ids (store_lines (new_world None)))
   \<and> (\<exists>x1 w1 x2 w2.
           run 0 steady_env one_post (new_world None) = Some (x1, w1)
           \<and> run 0 steady_env one_post (new_world (store w1)) = Some (x2, w2)
           \<and> distinct (line_ids (store_lines w2))
           \<and> (\<exists>added. store_lines w2 = store_lines w1 @ added
                 \<and> set (line_ids added) \<inter> set (line_ids (store_lines w1)) = {}))
   \<and> outcome (run 0 steady_env one_post (new_world None))
       = Some (None, Some [JsonArticle \<lparr>s_gall_no = 7, s_date = Some ''2025.06.01'',
                  s_title = ''t'', s_view_count = 7, s_content = ''c'', s_recommend_count = 1,
                  s_nonrecommend_count = 0, s_comments = []\<rparr>], False)
   \<and> outcome (run 0 steady_env one_post
                (new_world (Some [JsonArticle \<lparr>s_gall_no = 7, s_date = Some ''2025.06.01'',
                  s_title = ''t'', s_view_count = 7, s_content = ''c'', s_recommend_count = 1,
                  s_nonrecommend_count = 0, s_comments = []\<rparr>])))
       = Some (None, Some [JsonArticle \<lparr>s_gall_no = 7, s_date = Some ''2025.06.01'',
                  s_title = ''t'', s_view_count = 7, s_content = ''c'', s_recommend_count = 1,
                  s_nonrecommend_count = 0, s_comments = []\<rparr>], False)"
proof -
  have h1: "start_date one_post = None" by (simp add: one_post_def)
  have h2: "JsonOther \<notin> set (store_lines (new_world None))"
    by (simp add: store_lines_def new_world_def)
  have h3: "distinct (line_ids (store_lines (new_world None)))"
    by (simp add: store_lines_def new_world_def)
  note T = C3_dedup_idempotence[OF h1 h2 h3, of 0 steady_env 0 steady_env]
  have e1: "outcome (run 0 steady_env one_post (new_world None))
       = Some (None, Some [JsonArticle \<lparr>s_gall_no = 7, s_date = Some ''2025.06.01'',
                  s_title = ''t'', s_view_count = 7, s_content = ''c'', s_recommend_count = 1,
                  s_nonrecommend_count = 0, s_comments = []\<rparr>], False)"
    by code_simp
  have e2: "outcome (run 0 steady_env one_post
                (new_world (Some [JsonArticle \<lparr>s_gall_no = 7, s_date = Some ''2025.06.01'',
                  s_title = ''t'', s_view_count = 7, s_content = ''c'', s_recommend_count = 1,
                  s_nonrecommend_count = 0, s_comments = []\<rparr>])))
       = Some (None, Some [JsonArticle \<lparr>s_gall_no = 7, s_date = Some ''2025.06.01'',
                  s_title = ''t'', s_view_count = 7, s_content = ''c'', s_recommend_count = 1,
                  s_nonrecommend_count = 0, s_comments = []\<rparr>], False)"
    by code_simp
  show ?thesis
    by (intro conjI h1 h2 h3 T e1 e2)
qed

text \<open>
  The condition on the lines of the file is needed: one decodable line without a usable
  \<open>gall_no\<close> makes \<open>load_collected_gall_no\<close> return the empty set, and a run writes again
  a post that the file already holds.
\<close>

lemma line_without_gall_no_disables_dedup:
  "outcome (run 0 steady_env one_post
              (new_world (Some [JsonOther, JsonArticle \<lparr>s_gall_no = 7, s_date = Some ''2025.06.01'',
                  s_title = ''t'', s_view_count = 7, s_content = ''c'', s_recommend_count = 1,
                  s_nonrecommend_count = 0, s_comments = []\<rparr>])))
     = Some (None, Some [JsonOther,
                JsonArticle \<lparr>s_gall_no = 7, s_date = Some ''2025.06.01'',
                  s_title = ''t'', s_view_count = 7, s_content = ''c'', s_recommend_count = 1,
                  s_nonrecommend_count = 0, s_comments = []\<rparr>,
                JsonArticle \<lparr>s_gall_no = 7, s_date = Some ''2025.06.01'',
                  s_title = ''t'', s_view_count = 7, s_content = ''c'', s_recommend_count = 1,
                  s_nonrecommend_count = 0, s_comments = []\<rparr>], False)"
  by code_simp

section \<open>The end of a run\<close>

text \<open>
  When every entry of the batch is a record whose counters are integer literals, the
  handler of KeyboardInterrupt writes all of them, and the run ends without exception
  and with the browser closed.
\<close>

lemma interrupt_saves_batch_of_records:
  assumes "\<And>x. x \<in> set b \<Longrightarrow> \<exists>a l. x = Some a \<and> to_stored a = Ret l"
      and "finally_quit (except_keyboard_interrupt (Some KeyboardInterrupt, b, w)) = (x, w')"
  shows "x = None \<and> \<not> driver_open w' \<and> (\<forall>a. Some a \<in> set b \<longrightarrow> kept a [] w')"
proof -
  obtain y b1 w1 where fl: "flush b w = (y, b1, w1)" by (metis prod_cases3)
  have "fst (save_data_in_batch b w) = None"
    using write_batch_succeeds[OF assms(1)] by (simp add: save_data_in_batch_def)
  with fl have y: "y = None" "b1 = []"
    by (auto simp: flush_def split: prod.splits option.splits)
  from assms(2) fl have r: "x = y" "w' = emit DriverQuit (w1\<lparr>driver_open := False\<rparr>)"
    by (auto simp: finally_quit_def except_keyboard_interrupt_def)
  have "kept a [] w'" if "Some a \<in> set b" for a
    using flush_kept[OF fl[unfolded y] that]
    by (auto simp: kept_def r emit_def store_lines_def split: res.splits)
  then show ?thesis using y r by (simp add: emit_def)
qed

text \<open>Once both checks have passed, every way out of \<open>run\<close> goes through \<open>driver.quit\<close>.\<close>

lemma run_past_validation_quits_driver:
  assumes "check_gallery_conditions en c w = (None, w1)"
      and "check_scrapping_conditions en c w1 = (Ret pl, w2)"
      and "run fuel en c w = Some (x, w')"
  shows "\<not> driver_open w' \<and> trace w' \<noteq> [] \<and> last (trace w') = DriverQuit"
proof -
  obtain coll w3 where ld: "load_collected_gall_no w2 = (coll, w3)" by (metis surj_pair)
  from assms ld obtain r where "finally_quit (except_keyboard_interrupt r) = (x, w')"
    by (auto simp: run_def)
  then show ?thesis
    by (auto simp: finally_quit_def emit_def split: prod.splits)
qed

section \<open>Whitespace, digits and the day pattern\<close>

text \<open>
  The no-break space separates words for \<open>split()\<close>; the day pattern takes a day padded
  with a space; a \<open>data-no\<close> of a superscript two passes \<open>isdigit\<close> and fails in \<open>int\<close>,
  after the listing page has been requested.
\<close>

lemma split_first_no_break_space:
  "split_first (CHR 0xA0 # ''2025.05.06'' @ [CHR 0x85] @ ''10:00'') = Ret ''2025.05.06''"
  by code_simp

lemma strptime_space_padded_day:
  "strptime ''2025.05. 6'' = Some (2025, 5, 6) \<and> strptime ''2025.05. 0'' = None
   \<and> strptime ''2025.05. 61'' = None"
  by code_simp

lemma select_recent_gall_no_superscript:
  "select_recent_gall_no [(Some ''icon_notice'', ''99''), (None, [CHR 0xB2]), (None, ''10'')]
     = Raise (ValueError IntLiteral)"
  by code_simp

end
